theory Spec2Isabelle
  imports Main "HOL-Library.Word" "HOL-Library.Multiset"
begin

section \<open>IDA Pro SigMaker: data model\<close>

text \<open>
  The development follows \<^verbatim>\<open>src/IDA Pro SigMaker/Main.cpp\<close>. Addresses (\<^verbatim>\<open>ea_t\<close>)
  and \<^verbatim>\<open>size_t\<close> are 64-bit unsigned words, \<^verbatim>\<open>uint8_t\<close> is an 8-bit word and
  \<^verbatim>\<open>insn_t::size\<close> a 16-bit word. The value returned by \<^verbatim>\<open>decode_insn\<close> is a C
  \<^verbatim>\<open>int\<close>, kept as an \<open>int\<close>.
\<close>

type_synonym ea_t = "64 word"
type_synonym size_t = "64 word"
type_synonym uint8_t = "8 word"

definition BADADDR :: ea_t where
  "BADADDR = - 1"

text \<open>Operand kinds of the disassembler (\<^verbatim>\<open>optype_t\<close>).\<close>

datatype optype_t =
  o_void | o_reg | o_mem | o_phrase | o_displ | o_imm | o_far | o_near | o_idpspec nat

record op_t =
  optype :: optype_t
  offb :: uint8_t

record insn_t =
  insn_size :: "16 word"
  ops :: "op_t list"

record SignatureByte =
  "value" :: uint8_t
  isWildcard :: bool

type_synonym Signature = "SignatureByte list"

text \<open>
  The error strings of \<^verbatim>\<open>std::unexpected\<close>, one constructor per string; \<open>error_text\<close>
  gives the string of the source.
\<close>

datatype error =
  InvalidAddress | NotCode | Aborted | DecodeFailed | NotUnique | LengthExceeded
  | LeftFunctionScope

fun error_text :: "error \<Rightarrow> string" where
  "error_text InvalidAddress = ''Invalid address''"
| "error_text NotCode = ''Can not create code signature for data''"
| "error_text Aborted = ''Aborted''"
| "error_text DecodeFailed = ''Failed to decode first instruction''"
| "error_text NotUnique = ''Signature not unique''"
| "error_text LengthExceeded = ''Signature exceeded maximum length''"
| "error_text LeftFunctionScope = ''Signature left function scope''"

text \<open>
  The disassembler, the image, the matcher and the user are external. Their answers are
  the fields of \<open>ida\<close>: \<open>is_code a\<close> stands for \<^verbatim>\<open>is_code(get_flags(a))\<close>,
  \<open>get_func a\<close> for the function pointer (\<open>None\<close> is \<^verbatim>\<open>nullptr\<close>),
  \<open>decode_insn a\<close> for the returned length and the decoded instruction,
  \<open>bin_search2 a b p\<close> for the first match at or after \<open>a\<close> of the pattern compiled
  from the text \<open>p\<close> by \<^verbatim>\<open>parse_binpat_str\<close> (\<open>BADADDR\<close> when there is none),
  \<open>xrefs_to a\<close> for the origins that \<^verbatim>\<open>first_to\<close>/\<^verbatim>\<open>next_to\<close> enumerate with
  \<^verbatim>\<open>XREF_FAR\<close>, \<open>user_cancelled n\<close> for the answer of the \<open>n\<close>-th poll of the
  cancel flag and \<open>ask_yn n k\<close> for the button pressed at the \<open>n\<close>-th prompt, which
  shows the size \<open>k\<close> (1 is Yes, 0 is No, anything else is Cancel).
\<close>

record ida =
  IS_ARM :: bool
  min_ea :: ea_t
  max_ea :: ea_t
  is_code :: "ea_t \<Rightarrow> bool"
  get_func :: "ea_t \<Rightarrow> nat option"
  decode_insn :: "ea_t \<Rightarrow> int \<times> insn_t"
  get_byte :: "ea_t \<Rightarrow> uint8_t"
  bin_search2 :: "ea_t \<Rightarrow> ea_t \<Rightarrow> string \<Rightarrow> ea_t"
  xrefs_to :: "ea_t \<Rightarrow> ea_t list"
  user_cancelled :: "nat \<Rightarrow> bool"
  ask_yn :: "nat \<Rightarrow> nat \<Rightarrow> int"

section \<open>Operand wildcard policy\<close>

text \<open>The \<^verbatim>\<open>switch\<close> of \<^verbatim>\<open>GetOperandOffsetARM\<close>: the kinds that are wildcarded.\<close>

fun arm_wildcard_type :: "optype_t \<Rightarrow> bool" where
  "arm_wildcard_type o_mem = True"
| "arm_wildcard_type o_far = True"
| "arm_wildcard_type o_near = True"
| "arm_wildcard_type o_phrase = True"
| "arm_wildcard_type o_displ = True"
| "arm_wildcard_type o_imm = True"
| "arm_wildcard_type _ = False"

text \<open>
  \<^verbatim>\<open>GetOperandOffsetARM\<close>, as a loop over the operands that are left. The pair is
  the content of \<^verbatim>\<open>*operandOffset\<close> and \<^verbatim>\<open>*operandLength\<close>; the result is the
  returned flag with the content afterwards. The length is written only when the
  instruction has 4 or 8 bytes.
\<close>

fun GetOperandOffsetARM_ops ::
  "16 word \<Rightarrow> op_t list \<Rightarrow> uint8_t \<times> uint8_t \<Rightarrow> bool \<times> uint8_t \<times> uint8_t" where
  "GetOperandOffsetARM_ops sz [] (operandOffset, operandLength) =
     (False, operandOffset, operandLength)"
| "GetOperandOffsetARM_ops sz (op # rest) (operandOffset, operandLength) =
     (if \<not> arm_wildcard_type (optype op)
      then GetOperandOffsetARM_ops sz rest (operandOffset, operandLength)
      else
        let operandOffset' = offb op;
            len4 = (if sz = 4 then 3 else operandLength);
            len8 = (if sz = 8 then 7 else len4)
        in (True, operandOffset', len8))"

definition GetOperandOffsetARM ::
  "insn_t \<Rightarrow> uint8_t \<times> uint8_t \<Rightarrow> bool \<times> uint8_t \<times> uint8_t" where
  "GetOperandOffsetARM instruction out =
     GetOperandOffsetARM_ops (insn_size instruction) (ops instruction) out"

text \<open>
  The x86/64 loop of \<^verbatim>\<open>GetOperand\<close>. The length is
  \<^verbatim>\<open>instruction.size - op.offb\<close> stored in a \<^verbatim>\<open>uint8_t\<close>.
\<close>

fun GetOperand_ops ::
  "16 word \<Rightarrow> op_t list \<Rightarrow> uint8_t \<times> uint8_t \<Rightarrow> bool \<times> uint8_t \<times> uint8_t" where
  "GetOperand_ops sz [] (operandOffset, operandLength) =
     (False, operandOffset, operandLength)"
| "GetOperand_ops sz (op # rest) (operandOffset, operandLength) =
     (if optype op = o_void then GetOperand_ops sz rest (operandOffset, operandLength)
      else if offb op = 0 then GetOperand_ops sz rest (operandOffset, operandLength)
      else (True, offb op, ucast sz - offb op))"

definition GetOperand ::
  "ida \<Rightarrow> insn_t \<Rightarrow> uint8_t \<times> uint8_t \<Rightarrow> bool \<times> uint8_t \<times> uint8_t" where
  "GetOperand env instruction out =
     (if IS_ARM env then GetOperandOffsetARM instruction out
      else GetOperand_ops (insn_size instruction) (ops instruction) out)"

text \<open>
  The test both builders make on a decoded instruction:
  \<^verbatim>\<open>uint8_t operandOffset = 0, operandLength = 0;\<close> followed by
  \<^verbatim>\<open>GetOperand(instruction, &operandOffset, &operandLength) && operandLength > 0\<close>.
  The result is the operand range to mask, if the test passes.
\<close>

definition maskable_operand :: "ida \<Rightarrow> insn_t \<Rightarrow> (uint8_t \<times> uint8_t) option" where
  "maskable_operand env instruction =
     (case GetOperand env instruction (0, 0) of
        (found, operandOffset, operandLength) \<Rightarrow>
          if found \<and> operandLength > 0 then Some (operandOffset, operandLength) else None)"

section \<open>Signature model\<close>

text \<open>
  Modelled from the spec: \<^verbatim>\<open>AddBytesToSignature\<close> of \<^verbatim>\<open>SignatureUtils.h\<close>, which is
  not among the sources. It reads \<open>cnt\<close> bytes of the image from \<open>address\<close> on and
  appends each with the given wildcard flag, keeping the byte read. \<open>bytes_at\<close> are the
  entries for the bytes at the given distances from an address.
\<close>

definition bytes_at :: "ida \<Rightarrow> ea_t \<Rightarrow> bool \<Rightarrow> nat list \<Rightarrow> Signature" where
  "bytes_at env address wildcard idxs =
     map (\<lambda>i. \<lparr>value = get_byte env (address + of_nat i), isWildcard = wildcard\<rparr>) idxs"

definition AddBytesToSignature ::
  "ida \<Rightarrow> Signature \<Rightarrow> ea_t \<Rightarrow> size_t \<Rightarrow> bool \<Rightarrow> Signature" where
  "AddBytesToSignature env signature address cnt wildcard =
     signature @ bytes_at env address wildcard [0..<unat cnt]"

text \<open>
  Modelled from the spec: \<^verbatim>\<open>TrimSignature\<close> of \<^verbatim>\<open>SignatureUtils.h\<close>, which is not
  among the sources. It removes entries from the tail while \<open>isWildcard\<close> is true.
\<close>

definition TrimSignature :: "Signature \<Rightarrow> Signature" where
  "TrimSignature signature = rev (dropWhile isWildcard (rev signature))"

text \<open>
  Modelled from the spec: \<^verbatim>\<open>BuildIDASignatureString\<close> of \<^verbatim>\<open>SignatureUtils.h\<close>, which
  is not among the sources. A literal byte is two uppercase hexadecimal digits, a
  wildcard is \<^verbatim>\<open>?\<close>, and the separator is a single space.
\<close>

definition hex_digit :: "nat \<Rightarrow> char" where
  "hex_digit n = ''0123456789ABCDEF'' ! (n mod 16)"

definition hex_byte :: "uint8_t \<Rightarrow> string" where
  "hex_byte b = [hex_digit (unat b div 16), hex_digit (unat b mod 16)]"

definition ida_token :: "SignatureByte \<Rightarrow> string" where
  "ida_token b = (if isWildcard b then ''?'' else hex_byte (value b))"

fun BuildIDASignatureString :: "Signature \<Rightarrow> string" where
  "BuildIDASignatureString [] = []"
| "BuildIDASignatureString [b] = ida_token b"
| "BuildIDASignatureString (b # bs) = ida_token b @ '' '' @ BuildIDASignatureString bs"

section \<open>Occurrences of a signature in the image\<close>

text \<open>
  The \<^verbatim>\<open>while (true)\<close> of \<^verbatim>\<open>FindSignatureOccurences\<close>: search from \<open>ea\<close>, stop at
  \<open>BADADDR\<close>, otherwise record the match and search again one byte later. Nothing in
  the code bounds the number of rounds, so a scan that never ends is \<open>None\<close>.
\<close>

partial_function (option) FindSignatureOccurences_loop ::
  "ida \<Rightarrow> string \<Rightarrow> ea_t \<Rightarrow> ea_t list \<Rightarrow> ea_t list option" where
  "FindSignatureOccurences_loop env binaryPattern ea results =
     (let occurence = bin_search2 env ea (max_ea env) binaryPattern
      in if occurence = BADADDR then Some results
         else FindSignatureOccurences_loop env binaryPattern (occurence + 1)
                (results @ [occurence]))"

declare FindSignatureOccurences_loop.simps [code]

definition FindSignatureOccurences :: "ida \<Rightarrow> string \<Rightarrow> ea_t list option" where
  "FindSignatureOccurences env idaSignature =
     FindSignatureOccurences_loop env idaSignature (min_ea env) []"

definition IsSignatureUnique :: "ida \<Rightarrow> string \<Rightarrow> bool option" where
  "IsSignatureUnique env idaSignature =
     map_option (\<lambda>results. length results = 1) (FindSignatureOccurences env idaSignature)"

section \<open>Appending one instruction\<close>

text \<open>
  The block both builders run on a decoded instruction (lines 153 to 167 and 228 to
  242): the operand test, then the bytes before the operand as literals, the operand as
  wildcards and, when the operand starts the instruction, the bytes after it as
  literals; without a maskable operand the whole instruction as literals. The last
  count is \<^verbatim>\<open>currentInstructionLength - operandLength\<close>, an \<^verbatim>\<open>int\<close> passed as a
  \<^verbatim>\<open>size_t\<close>.
\<close>

definition AddInstruction ::
  "ida \<Rightarrow> bool \<Rightarrow> insn_t \<Rightarrow> ea_t \<Rightarrow> int \<Rightarrow> Signature \<Rightarrow> Signature" where
  "AddInstruction env wildcardOperands instruction currentAddress currentInstructionLength
       signature =
     (case GetOperand env instruction (0, 0) of
        (found, operandOffset, operandLength) \<Rightarrow>
          if wildcardOperands \<and> found \<and> operandLength > 0 then
            let s1 = AddBytesToSignature env signature currentAddress
                       (ucast operandOffset) False;
                s2 = AddBytesToSignature env s1 (currentAddress + ucast operandOffset)
                       (ucast operandLength) True
            in if operandOffset = 0
               then AddBytesToSignature env s2 (currentAddress + ucast operandLength)
                      (word_of_int (currentInstructionLength - uint operandLength)) False
               else s2
          else AddBytesToSignature env signature currentAddress
                 (word_of_int currentInstructionLength) False)"

section \<open>Effects\<close>

text \<open>
  What the plugin prints or shows, in order. The formatted text of a message is not
  modelled: each constructor stands for one format string of the source and carries its
  arguments.
\<close>

datatype message =
    ReachedEnd ea_t
    \<comment> \<open>\<^verbatim>\<open>Signature reached end of executable code @ %I64X\<close>\<close>
  | NotUniqueSignature ea_t string
    \<comment> \<open>\<^verbatim>\<open>NOT UNIQUE Signature for %I64X: %s\<close>\<close>
  | ProcessingXref nat nat
    \<comment> \<open>\<^verbatim>\<open>Processing xref %llu of %llu\<close> (the percentage is left out)\<close>
  | NoXrefs
    \<comment> \<open>\<^verbatim>\<open>No XREFs have been found for your address\<close>\<close>
  | TopSignatures nat nat ea_t
    \<comment> \<open>\<^verbatim>\<open>Top %llu Signatures out of %llu xrefs for %I64X:\<close>\<close>
  | XrefSignature nat ea_t string
    \<comment> \<open>\<^verbatim>\<open>XREF Signature #%i @ %I64X: %s\<close>\<close>
  | DetectedMaskNoBytes string
    \<comment> \<open>\<^verbatim>\<open>Detected mask "%s" but failed to match corresponding bytes\<close>\<close>
  | FailedToMatchFormat
    \<comment> \<open>\<^verbatim>\<open>Failed to match signature format\<close>\<close>
  | UnrecognizedType
    \<comment> \<open>\<^verbatim>\<open>Unrecognized signature type\<close>\<close>
  | SignatureLine string
    \<comment> \<open>\<^verbatim>\<open>Signature: %s\<close>\<close>
  | NoMatch
    \<comment> \<open>\<^verbatim>\<open>Signature does not match!\<close>\<close>
  | MatchAt ea_t
    \<comment> \<open>\<^verbatim>\<open>Match @ %I64X\<close>\<close>

text \<open>
  The state of the user interface: how often the cancel flag has been polled, how many
  prompts have been answered, the messages printed so far and the clipboard.
\<close>

record io =
  polls :: nat
  prompts :: nat
  messages :: "message list"
  clipboard :: "string option"

definition msg :: "message \<Rightarrow> io \<Rightarrow> io" where
  "msg m s = s\<lparr>messages := messages s @ [m]\<rparr>"

definition poll :: "io \<Rightarrow> io" where
  "poll s = s\<lparr>polls := Suc (polls s)\<rparr>"

definition answered :: "io \<Rightarrow> io" where
  "answered s = s\<lparr>prompts := Suc (prompts s)\<rparr>"

section \<open>The growing builder\<close>

text \<open>The local variables of the loop of \<^verbatim>\<open>GenerateUniqueSignatureForEA\<close>.\<close>

record locals =
  signature :: Signature
  sigPartLength :: size_t
  currentAddress :: ea_t

type_synonym outcome = "(error + Signature) \<times> io"

text \<open>One round of a \<^verbatim>\<open>while (true)\<close>: it returns from the function or goes round again.\<close>

datatype round = Return outcome | Continue locals io

text \<open>
  The length check (lines 131 to 150). \<open>Inl\<close> is a return from the function, \<open>Inr\<close>
  the value of \<^verbatim>\<open>sigPartLength\<close> with which the round goes on.
\<close>

definition LengthCheck ::
  "ida \<Rightarrow> ea_t \<Rightarrow> size_t \<Rightarrow> bool \<Rightarrow> locals \<Rightarrow> io \<Rightarrow> outcome + size_t \<times> io" where
  "LengthCheck env ea maxSignatureLength askLongerSignature v s =
     (if sigPartLength v > maxSignatureLength then
        if askLongerSignature then
          let result = ask_yn env (prompts s) (length (signature v));
              s' = answered s
          in if result = 1 then Inr (0, s')
             else if result = 0 then
               Inl (Inl NotUnique,
                    msg (NotUniqueSignature ea (BuildIDASignatureString (signature v))) s')
             else Inl (Inl Aborted, s')
        else Inl (Inl LengthExceeded, s)
      else Inr (sigPartLength v, s))"

text \<open>
  The rest of the round (lines 151 to 182): count the bytes, append the instruction,
  test uniqueness, advance, check the function scope.
\<close>

definition GrowAndTest ::
  "ida \<Rightarrow> bool \<Rightarrow> bool \<Rightarrow> nat option \<Rightarrow> insn_t \<Rightarrow> int \<Rightarrow> locals \<Rightarrow> io \<Rightarrow> round option"
where
  "GrowAndTest env wildcardOperands continueOutsideOfFunction currentFunction instruction
       currentInstructionLength v s =
     (let partLength = sigPartLength v + word_of_int currentInstructionLength;
          sig = AddInstruction env wildcardOperands instruction (currentAddress v)
                  currentInstructionLength (signature v)
      in case IsSignatureUnique env (BuildIDASignatureString sig) of
           None \<Rightarrow> None
         | Some unique \<Rightarrow>
             if unique then Some (Return (Inr (TrimSignature sig), s))
             else
               let address = currentAddress v + word_of_int currentInstructionLength
               in if \<not> continueOutsideOfFunction \<and> currentFunction \<noteq> None
                     \<and> get_func env address \<noteq> currentFunction
                  then Some (Return (Inl LeftFunctionScope, s))
                  else Some (Continue
                         \<lparr>signature = sig, sigPartLength = partLength,
                          currentAddress = address\<rparr> s))"

text \<open>The whole round (lines 112 to 183).\<close>

definition GenerateUniqueSignatureForEA_round ::
  "ida \<Rightarrow> ea_t \<Rightarrow> bool \<Rightarrow> bool \<Rightarrow> size_t \<Rightarrow> bool \<Rightarrow> nat option \<Rightarrow> locals \<Rightarrow> io
     \<Rightarrow> round option" where
  "GenerateUniqueSignatureForEA_round env ea wildcardOperands continueOutsideOfFunction
       maxSignatureLength askLongerSignature currentFunction v s0 =
     (let s = poll s0 in
      if user_cancelled env (polls s0) then Some (Return (Inl Aborted, s))
      else
        case decode_insn env (currentAddress v) of
          (currentInstructionLength, instruction) \<Rightarrow>
            if currentInstructionLength \<le> 0 then
              if signature v = [] then Some (Return (Inl DecodeFailed, s))
              else Some (Return (Inl NotUnique,
                     msg (NotUniqueSignature ea (BuildIDASignatureString (signature v)))
                       (msg (ReachedEnd (currentAddress v)) s)))
            else
              case LengthCheck env ea maxSignatureLength askLongerSignature v s of
                Inl r \<Rightarrow> Some (Return r)
              | Inr (partLength, s') \<Rightarrow>
                  GrowAndTest env wildcardOperands continueOutsideOfFunction
                    currentFunction instruction currentInstructionLength
                    (v\<lparr>sigPartLength := partLength\<rparr>) s')"

text \<open>
  The loop. A round that never gets an answer from the matcher, and a loop that goes
  round for ever, are \<open>None\<close>.
\<close>

partial_function (option) GenerateUniqueSignatureForEA_loop ::
  "ida \<Rightarrow> ea_t \<Rightarrow> bool \<Rightarrow> bool \<Rightarrow> size_t \<Rightarrow> bool \<Rightarrow> nat option \<Rightarrow> locals \<Rightarrow> io
     \<Rightarrow> outcome option" where
  "GenerateUniqueSignatureForEA_loop env ea wildcardOperands continueOutsideOfFunction
       maxSignatureLength askLongerSignature currentFunction v s =
     (case GenerateUniqueSignatureForEA_round env ea wildcardOperands
             continueOutsideOfFunction maxSignatureLength askLongerSignature
             currentFunction v s of
        None \<Rightarrow> None
      | Some (Return r) \<Rightarrow> Some r
      | Some (Continue v' s') \<Rightarrow>
          GenerateUniqueSignatureForEA_loop env ea wildcardOperands
            continueOutsideOfFunction maxSignatureLength askLongerSignature
            currentFunction v' s')"

declare GenerateUniqueSignatureForEA_loop.simps [code]

definition GenerateUniqueSignatureForEA ::
  "ida \<Rightarrow> ea_t \<Rightarrow> bool \<Rightarrow> bool \<Rightarrow> size_t \<Rightarrow> bool \<Rightarrow> io \<Rightarrow> outcome option" where
  "GenerateUniqueSignatureForEA env ea wildcardOperands continueOutsideOfFunction
       maxSignatureLength askLongerSignature s =
     (if ea = BADADDR then Some (Inl InvalidAddress, s)
      else if \<not> is_code env ea then Some (Inl NotCode, s)
      else GenerateUniqueSignatureForEA_loop env ea wildcardOperands
             continueOutsideOfFunction maxSignatureLength askLongerSignature
             (get_func env ea)
             \<lparr>signature = [], sigPartLength = 0, currentAddress = ea\<rparr> s)"

text \<open>
  The loop unrolled: the locals and the interface state at the start of round \<open>k\<close>
  (counted from 0), if the loop gets that far.
\<close>

fun GenerateUniqueSignatureForEA_rounds ::
  "nat \<Rightarrow> ida \<Rightarrow> ea_t \<Rightarrow> bool \<Rightarrow> bool \<Rightarrow> size_t \<Rightarrow> bool \<Rightarrow> nat option \<Rightarrow> locals \<Rightarrow> io
     \<Rightarrow> (locals \<times> io) option" where
  "GenerateUniqueSignatureForEA_rounds 0 env ea wildcardOperands continueOutsideOfFunction
       maxSignatureLength askLongerSignature currentFunction v s = Some (v, s)"
| "GenerateUniqueSignatureForEA_rounds (Suc k) env ea wildcardOperands
       continueOutsideOfFunction maxSignatureLength askLongerSignature currentFunction v s =
     (case GenerateUniqueSignatureForEA_round env ea wildcardOperands
             continueOutsideOfFunction maxSignatureLength askLongerSignature
             currentFunction v s of
        Some (Continue v' s') \<Rightarrow>
          GenerateUniqueSignatureForEA_rounds k env ea wildcardOperands
            continueOutsideOfFunction maxSignatureLength askLongerSignature
            currentFunction v' s'
      | _ \<Rightarrow> None)"

text \<open>
  The instruction prefixes the loop walks through: \<open>cursor_after env ea k\<close> is the
  address after \<open>k\<close> instructions from \<open>ea\<close> on, and \<open>signature_after env w ea k\<close> the
  signature made of these \<open>k\<close> instructions.
\<close>

fun cursor_after :: "ida \<Rightarrow> ea_t \<Rightarrow> nat \<Rightarrow> ea_t" where
  "cursor_after env ea 0 = ea"
| "cursor_after env ea (Suc k) =
     cursor_after env ea k + word_of_int (fst (decode_insn env (cursor_after env ea k)))"

fun signature_after :: "ida \<Rightarrow> bool \<Rightarrow> ea_t \<Rightarrow> nat \<Rightarrow> Signature" where
  "signature_after env wildcardOperands ea 0 = []"
| "signature_after env wildcardOperands ea (Suc k) =
     AddInstruction env wildcardOperands
       (snd (decode_insn env (cursor_after env ea k))) (cursor_after env ea k)
       (fst (decode_insn env (cursor_after env ea k)))
       (signature_after env wildcardOperands ea k)"

text \<open>The number of places where the matcher finds a signature, when its scan ends.\<close>

definition occurrence_count :: "ida \<Rightarrow> Signature \<Rightarrow> nat option" where
  "occurrence_count env sig =
     map_option length (FindSignatureOccurences env (BuildIDASignatureString sig))"

text \<open>
  \<open>in_round env ea w c m ask s0 k v s\<close>: the call of \<^verbatim>\<open>GenerateUniqueSignatureForEA\<close>
  with these arguments, started in the interface state \<open>s0\<close>, has passed its two entry
  checks and stands at the start of round \<open>k\<close> with the locals \<open>v\<close> and the interface
  state \<open>s\<close>.
\<close>

definition in_round ::
  "ida \<Rightarrow> ea_t \<Rightarrow> bool \<Rightarrow> bool \<Rightarrow> size_t \<Rightarrow> bool \<Rightarrow> io \<Rightarrow> nat \<Rightarrow> locals \<Rightarrow> io \<Rightarrow> bool" where
  "in_round env ea wildcardOperands continueOutsideOfFunction maxSignatureLength
       askLongerSignature s0 k v s =
     (ea \<noteq> BADADDR \<and> is_code env ea \<and>
      GenerateUniqueSignatureForEA_rounds k env ea wildcardOperands
        continueOutsideOfFunction maxSignatureLength askLongerSignature (get_func env ea)
        \<lparr>signature = [], sigPartLength = 0, currentAddress = ea\<rparr> s0 = Some (v, s))"

section \<open>The range builder\<close>

text \<open>
  One round of the loop of \<^verbatim>\<open>GenerateSignatureForEARange\<close> (lines 205 to 249). The
  locals are those of the growing builder; \<^verbatim>\<open>sigPartLength\<close> is counted and never read.
\<close>

definition GenerateSignatureForEARange_round ::
  "ida \<Rightarrow> ea_t \<Rightarrow> bool \<Rightarrow> locals \<Rightarrow> io \<Rightarrow> round" where
  "GenerateSignatureForEARange_round env eaEnd wildcardOperands v s0 =
     (let s = poll s0 in
      if user_cancelled env (polls s0) then Return (Inl Aborted, s)
      else
        case decode_insn env (currentAddress v) of
          (currentInstructionLength, instruction) \<Rightarrow>
            if currentInstructionLength \<le> 0 then
              if signature v = [] then Return (Inl DecodeFailed, s)
              else
                let s' = msg (ReachedEnd (currentAddress v)) s;
                    sig = (if currentAddress v < eaEnd
                           then AddBytesToSignature env (signature v) (currentAddress v)
                                  (eaEnd - currentAddress v) False
                           else signature v)
                in Return (Inr (TrimSignature sig), s')
            else
              let partLength = sigPartLength v + word_of_int currentInstructionLength;
                  sig = AddInstruction env wildcardOperands instruction (currentAddress v)
                          currentInstructionLength (signature v);
                  address = currentAddress v + word_of_int currentInstructionLength
              in if address \<ge> eaEnd then Return (Inr (TrimSignature sig), s)
                 else Continue
                        \<lparr>signature = sig, sigPartLength = partLength,
                         currentAddress = address\<rparr> s)"

text \<open>The loop. Going round for ever is \<open>None\<close>.\<close>

partial_function (option) GenerateSignatureForEARange_loop ::
  "ida \<Rightarrow> ea_t \<Rightarrow> bool \<Rightarrow> locals \<Rightarrow> io \<Rightarrow> outcome option" where
  "GenerateSignatureForEARange_loop env eaEnd wildcardOperands v s =
     (case GenerateSignatureForEARange_round env eaEnd wildcardOperands v s of
        Return r \<Rightarrow> Some r
      | Continue v' s' \<Rightarrow> GenerateSignatureForEARange_loop env eaEnd wildcardOperands v' s')"

declare GenerateSignatureForEARange_loop.simps [code]

definition GenerateSignatureForEARange ::
  "ida \<Rightarrow> ea_t \<Rightarrow> ea_t \<Rightarrow> bool \<Rightarrow> io \<Rightarrow> outcome option" where
  "GenerateSignatureForEARange env eaStart eaEnd wildcardOperands s =
     (if eaStart = BADADDR \<or> eaEnd = BADADDR then Some (Inl InvalidAddress, s)
      else if \<not> is_code env eaStart
        then Some (Inr (AddBytesToSignature env [] eaStart (eaEnd - eaStart) False), s)
      else GenerateSignatureForEARange_loop env eaEnd wildcardOperands
             \<lparr>signature = [], sigPartLength = 0, currentAddress = eaStart\<rparr> s)"

text \<open>A signature has no trailing wildcard: it is empty or its last entry is a literal.\<close>

definition no_trailing_wildcard :: "Signature \<Rightarrow> bool" where
  "no_trailing_wildcard sig = (case rev sig of [] \<Rightarrow> True | b # _ \<Rightarrow> \<not> isWildcard b)"

section \<open>Signatures of the cross-references\<close>











text \<open>
  Modelled from the spec: the enumeration \<^verbatim>\<open>SignatureType\<close> of \<^verbatim>\<open>SignatureUtils.h\<close>,
  which is not among the sources.
\<close>

datatype SignatureType = IdaStyle | X64DbgStyle | CByteArrayWithMask | CRawBytesWithBitmask



section \<open>Searching for a pasted signature\<close>

text \<open>
  The regular expressions of \<^verbatim>\<open>SearchSignatureString\<close> are matched by
  \<^verbatim>\<open>std::regex\<close>; each one used on the mask branch is written out as the scan it
  performs. \<open>is_hex_upper\<close> is the class \<^verbatim>\<open>[0-9A-F]\<close>.
\<close>

definition is_hex_upper :: "char \<Rightarrow> bool" where
  "is_hex_upper c =
     (let n = (of_char c :: nat) in (48 \<le> n \<and> n \<le> 57) \<or> (65 \<le> n \<and> n \<le> 70))"

text \<open>
  \<^verbatim>\<open>regex_search\<close> with \<^verbatim>\<open>x(?:x|\?)+\<close>: the leftmost \<^verbatim>\<open>x\<close> that is followed by
  \<^verbatim>\<open>x\<close> or \<^verbatim>\<open>?\<close>, with all the \<^verbatim>\<open>x\<close> and \<^verbatim>\<open>?\<close> that follow it.
\<close>

definition is_mask_char :: "char \<Rightarrow> bool" where
  "is_mask_char c = (c = CHR ''x'' \<or> c = CHR ''?'')"

fun find_string_mask :: "string \<Rightarrow> string option" where
  "find_string_mask [] = None"
| "find_string_mask (c # cs) =
     (if c = CHR ''x'' \<and> takeWhile is_mask_char cs \<noteq> []
      then Some (c # takeWhile is_mask_char cs)
      else find_string_mask cs)"

text \<open>
  \<^verbatim>\<open>regex_search\<close> with \<^verbatim>\<open>0b(?:[0,1])+\<close>: the leftmost \<^verbatim>\<open>0b\<close> that is followed by
  a character of the class \<^verbatim>\<open>[0,1]\<close>, with all the characters of the class that
  follow. The class has three members: the digit 0, the comma and the digit 1.
\<close>

definition is_bit_class :: "char \<Rightarrow> bool" where
  "is_bit_class c = (c = CHR ''0'' \<or> c = CHR '','' \<or> c = CHR ''1'')"

fun find_binary_mask :: "string \<Rightarrow> string option" where
  "find_binary_mask [] = None"
| "find_binary_mask [c] = None"
| "find_binary_mask (c # b # cs) =
     (if c = CHR ''0'' \<and> b = CHR ''b'' \<and> takeWhile is_bit_class cs \<noteq> []
      then Some (c # b # takeWhile is_bit_class cs)
      else find_binary_mask (b # cs))"

text \<open>
  The mask detection (lines 346 to 357): the string mask if there is one, else the
  binary mask with its bits reversed, \<^verbatim>\<open>1\<close> turned into \<^verbatim>\<open>x\<close> and everything else
  into \<^verbatim>\<open>?\<close>, else the empty string.
\<close>

definition DetectMask :: "string \<Rightarrow> string" where
  "DetectMask input =
     (case find_string_mask input of
        Some m \<Rightarrow> m
      | None \<Rightarrow>
          (case find_binary_mask input of
             Some m \<Rightarrow>
               (let bits = drop 2 m; reversedBits = rev bits
                in map (\<lambda>b. if b = CHR ''1'' then CHR ''x'' else CHR ''?'') reversedBits)
           | None \<Rightarrow> []))"

text \<open>
  Modelled from the spec: \<^verbatim>\<open>GetRegexMatches\<close> of \<^verbatim>\<open>Utils.h\<close>, which is not among the
  sources. It scans the full text and returns every match of the expression, from
  left to right, each search starting where the last match ended; it reports whether
  there was a match. For \<^verbatim>\<open>\\x(?:[0-9A-F]{2})\<close> a match is a backslash, an \<^verbatim>\<open>x\<close>
  and two digits. For \<^verbatim>\<open>(?:0x(?:[0-9A-F]{2}))+\<close> a match is a longest run of groups
  \<^verbatim>\<open>0xNN\<close> that follow each other directly; \<open>cur\<close> is the run collected so far.
\<close>

fun GetRegexMatches_escaped :: "string \<Rightarrow> string list" where
  "GetRegexMatches_escaped (c # x # h1 # h2 # rest) =
     (if c = CHR 0x5C \<and> x = CHR ''x'' \<and> is_hex_upper h1 \<and> is_hex_upper h2
      then [c, x, h1, h2] # GetRegexMatches_escaped rest
      else GetRegexMatches_escaped (x # h1 # h2 # rest))"
| "GetRegexMatches_escaped (c # cs) = GetRegexMatches_escaped cs"
| "GetRegexMatches_escaped [] = []"

definition flush :: "string \<Rightarrow> string list" where
  "flush cur = (if cur = [] then [] else [cur])"

fun GetRegexMatches_0x :: "string \<Rightarrow> string \<Rightarrow> string list" where
  "GetRegexMatches_0x cur (c # x # h1 # h2 # rest) =
     (if c = CHR ''0'' \<and> x = CHR ''x'' \<and> is_hex_upper h1 \<and> is_hex_upper h2
      then GetRegexMatches_0x (cur @ [c, x, h1, h2]) rest
      else flush cur @ GetRegexMatches_0x [] (x # h1 # h2 # rest))"
| "GetRegexMatches_0x cur (c # cs) = flush cur @ GetRegexMatches_0x [] cs"
| "GetRegexMatches_0x cur [] = flush cur"

text \<open>
  \<^verbatim>\<open>std::stoi(text, nullptr, 16)\<close> on a text that starts with a hexadecimal digit: the
  value of the longest prefix of hexadecimal digits.
\<close>

definition is_hex_digit :: "char \<Rightarrow> bool" where
  "is_hex_digit c =
     (let n = (of_char c :: nat)
      in (48 \<le> n \<and> n \<le> 57) \<or> (65 \<le> n \<and> n \<le> 70) \<or> (97 \<le> n \<and> n \<le> 102))"

definition hex_digit_value :: "char \<Rightarrow> int" where
  "hex_digit_value c =
     (let n = (of_char c :: nat)
      in if n \<le> 57 then int n - 48 else if n \<le> 70 then int n - 55 else int n - 87)"

definition stoi16 :: "string \<Rightarrow> int" where
  "stoi16 text =
     foldl (\<lambda>acc c. 16 * acc + hex_digit_value c) 0 (takeWhile is_hex_digit text)"

text \<open>
  The loop that builds the signature from the byte texts and the mask (lines 366 to
  369 and 375 to 378); it runs when both have the same length. The value is the
  \<^verbatim>\<open>int\<close> of \<^verbatim>\<open>std::stoi\<close> stored in a \<^verbatim>\<open>uint8_t\<close>.
\<close>

definition MaskedSignature :: "string list \<Rightarrow> string \<Rightarrow> Signature" where
  "MaskedSignature rawByteStrings stringMask =
     map (\<lambda>(m, k). \<lparr>value = word_of_int (stoi16 (drop 2 m)), isWildcard = (k = CHR ''?'')\<rparr>)
       (zip rawByteStrings stringMask)"

text \<open>
  The branch for a detected mask (lines 360 to 384): the converted signature text,
  empty when the bytes could not be matched to the mask.
\<close>

definition ConvertWithMask :: "string \<Rightarrow> string \<Rightarrow> io \<Rightarrow> string \<times> io" where
  "ConvertWithMask input stringMask s =
     (let escaped = GetRegexMatches_escaped input in
      if escaped \<noteq> [] \<and> length escaped = length stringMask
      then (BuildIDASignatureString (MaskedSignature escaped stringMask), s)
      else
        let prefixed = GetRegexMatches_0x [] input in
        if prefixed \<noteq> [] \<and> length prefixed = length stringMask
        then (BuildIDASignatureString (MaskedSignature prefixed stringMask), s)
        else ([], msg (DetectedMaskNoBytes stringMask) s))"

text \<open>
  \<^verbatim>\<open>SearchSignatureString\<close>. The branch for a text without a mask (lines 386 to 431)
  is the parameter \<open>withoutMask\<close>, which gives the converted text and the messages.
\<close>

definition SearchSignatureString ::
  "ida \<Rightarrow> (string \<Rightarrow> io \<Rightarrow> string \<times> io) \<Rightarrow> string \<Rightarrow> io \<Rightarrow> io option" where
  "SearchSignatureString env withoutMask input s =
     (let stringMask = DetectMask input in
      case (if stringMask \<noteq> [] then ConvertWithMask input stringMask s
            else withoutMask input s) of
        (convertedSignatureString, s1) \<Rightarrow>
          if convertedSignatureString = [] then Some (msg UnrecognizedType s1)
          else
            let s2 = msg (SignatureLine convertedSignatureString) s1 in
            case FindSignatureOccurences env convertedSignatureString of
              None \<Rightarrow> None
            | Some signatureMatches \<Rightarrow>
                if signatureMatches = [] then Some (msg NoMatch s2)
                else Some (fold (\<lambda>ea. msg (MatchAt ea)) signatureMatches s2))"


section \<open>Concrete images for the examples\<close>

text \<open>
  An ARM image: every instruction has 4 bytes, a register operand and an immediate
  operand at offset 0; byte \<open>a\<close> of the image holds the low 8 bits of \<open>a\<close>. The matcher
  finds a pattern of up to 15 characters (four tokens) at every address up to 20 and a
  longer one at address 5 only.
\<close>

definition arm_insn :: insn_t where
  "arm_insn = \<lparr>insn_size = 4,
     ops = [\<lparr>optype = o_reg, offb = 0\<rparr>, \<lparr>optype = o_imm, offb = 0\<rparr>]\<rparr>"

definition arm_image :: ida where
  "arm_image = \<lparr>IS_ARM = True, min_ea = 0, max_ea = 100,
     is_code = (\<lambda>a. True), get_func = (\<lambda>a. None),
     decode_insn = (\<lambda>a. (4, arm_insn)),
     get_byte = (\<lambda>a. ucast a),
     bin_search2 = (\<lambda>a b p. if length p < 16 then (if a \<le> 20 then a else BADADDR)
                            else if a \<le> 5 then 5 else BADADDR),
     xrefs_to = (\<lambda>a. []),
     user_cancelled = (\<lambda>n. False), ask_yn = (\<lambda>n k. 1)\<rparr>"

definition io0 :: io where
  "io0 = \<lparr>polls = 0, prompts = 0, messages = [], clipboard = None\<rparr>"

text \<open>
  An x86 image: every instruction has 5 bytes, a register operand without a known
  offset and an immediate operand at offset 1. The addresses from 16 to 25 belong to
  function 1, 26 and above to function 2. A pattern of more than one instruction is
  found once; a shorter one at every address up to 40. Addresses from 64 on cannot
  be decoded.
\<close>

definition x86_insn :: insn_t where
  "x86_insn = \<lparr>insn_size = 5,
     ops = [\<lparr>optype = o_reg, offb = 0\<rparr>, \<lparr>optype = o_imm, offb = 1\<rparr>]\<rparr>"

definition x86_image :: ida where
  "x86_image = \<lparr>IS_ARM = False, min_ea = 0, max_ea = 100,
     is_code = (\<lambda>a. True),
     get_func = (\<lambda>a. if a < 16 then None else if a < 26 then Some 1 else Some 2),
     decode_insn = (\<lambda>a. if a < 64 then (5, x86_insn) else (0, x86_insn)),
     get_byte = (\<lambda>a. ucast a),
     bin_search2 = (\<lambda>a b p. if length p < 12 then (if a \<le> 40 then a else BADADDR)
                            else if a \<le> 16 then 16 else BADADDR),
     xrefs_to = (\<lambda>a. []),
     user_cancelled = (\<lambda>n. False), ask_yn = (\<lambda>n k. 0)\<rparr>"

text \<open>The same image with a user who answers Yes, and with one who answers Cancel.\<close>

definition x86_image_yes :: ida where
  "x86_image_yes = x86_image\<lparr>ask_yn := (\<lambda>n k. 1)\<rparr>"

definition x86_image_cancel :: ida where
  "x86_image_cancel = x86_image\<lparr>ask_yn := (\<lambda>n k. - 1)\<rparr>"

text \<open>
  An image whose addresses below 32 are data and whose other addresses are x86 code as
  above.
\<close>

definition data_image :: ida where
  "data_image = x86_image\<lparr>is_code := (\<lambda>a. 32 \<le> a)\<rparr>"

text \<open>
  An image for the cross-references: address 80 is referenced from 16 (data), 50, 59
  and 40 (code). A pattern that starts with the digit 2 is found once, any other
  pattern of up to 11 characters at every address up to 3, and a longer one once.
\<close>

definition xref_image :: ida where
  "xref_image = x86_image\<lparr>
     is_code := (\<lambda>a. 32 \<le> a),
     get_func := (\<lambda>a. None),
     bin_search2 := (\<lambda>a b p. if take 1 p = ''2'' then (if a \<le> 7 then 7 else BADADDR)
                             else if length p < 12 then (if a \<le> 3 then a else BADADDR)
                             else if a \<le> 16 then 16 else BADADDR),
     xrefs_to := (\<lambda>a. if a = 80 then [16, 50, 59, 40] else [])\<rparr>"



text \<open>The x86 image with a user who cancels at the second poll.\<close>

definition x86_image_cancelled :: ida where
  "x86_image_cancelled = x86_image\<lparr>user_cancelled := (\<lambda>n. n = 1)\<rparr>"

section \<open>The ARM operand policy\<close>

lemma GetOperandOffsetARM_ops_find:
  "GetOperandOffsetARM_ops sz os (0, 0) =
     (case find (\<lambda>op. arm_wildcard_type (optype op)) os of
        None \<Rightarrow> (False, 0, 0)
      | Some op \<Rightarrow> (True, offb op, if sz = 8 then 7 else if sz = 4 then 3 else 0))"
  by (induction os) (auto simp: Let_def)

text \<open>
  Claim C4. Under the ARM policy the operand that is masked is the first one, in
  declaration order, whose kind is a memory kind (\<open>o_mem\<close>, \<open>o_phrase\<close>, \<open>o_displ\<close>),
  the immediate kind (\<open>o_imm\<close>) or a branch-target kind (\<open>o_far\<close>, \<open>o_near\<close>); the
  offset is the operand's own \<open>offb\<close>; the length is 3 for an instruction of 4 bytes
  and 7 for one of 8 bytes. For every other instruction length, and when no operand
  qualifies, the builders find no maskable operand: \<^verbatim>\<open>GetOperandOffsetARM\<close> itself
  returns true for a qualifying operand of such an instruction, but it leaves the
  length at the 0 the builders put there, and their test \<^verbatim>\<open>operandLength > 0\<close> fails.
\<close>

theorem arm_policy:
  assumes "IS_ARM env"
  shows "maskable_operand env insn =
           (case find (\<lambda>op. arm_wildcard_type (optype op)) (ops insn) of
              None \<Rightarrow> None
            | Some op \<Rightarrow>
                if insn_size insn = 4 then Some (offb op, 3)
                else if insn_size insn = 8 then Some (offb op, 7)
                else None)
         \<and> GetOperand env insn (0, 0) =
           (case find (\<lambda>op. arm_wildcard_type (optype op)) (ops insn) of
              None \<Rightarrow> (False, 0, 0)
            | Some op \<Rightarrow>
                (True, offb op,
                 if insn_size insn = 8 then 7 else if insn_size insn = 4 then 3 else 0))
         \<and> (arm_wildcard_type t \<longleftrightarrow> t \<in> {o_mem, o_phrase, o_displ, o_imm, o_far, o_near})"
proof -
  have kinds: "arm_wildcard_type t \<longleftrightarrow> t \<in> {o_mem, o_phrase, o_displ, o_imm, o_far, o_near}"
    by (cases t) simp_all
  have raw: "GetOperand env insn (0, 0) =
           (case find (\<lambda>op. arm_wildcard_type (optype op)) (ops insn) of
              None \<Rightarrow> (False, 0, 0)
            | Some op \<Rightarrow>
                (True, offb op,
                 if insn_size insn = 8 then 7 else if insn_size insn = 4 then 3 else 0))"
    using assms
    by (simp add: GetOperand_def GetOperandOffsetARM_def GetOperandOffsetARM_ops_find)
  have "maskable_operand env insn =
           (case find (\<lambda>op. arm_wildcard_type (optype op)) (ops insn) of
              None \<Rightarrow> None
            | Some op \<Rightarrow>
                if insn_size insn = 4 then Some (offb op, 3)
                else if insn_size insn = 8 then Some (offb op, 7)
                else None)"
    unfolding maskable_operand_def raw
    by (auto split: option.splits)
  with raw kinds show ?thesis by blast
qed

theorem arm_policy_witness:
  "IS_ARM arm_image \<and> maskable_operand arm_image arm_insn = Some (0, 3)
   \<and> maskable_operand arm_image (arm_insn\<lparr>insn_size := 8\<rparr>) = Some (0, 7)
   \<and> maskable_operand arm_image (arm_insn\<lparr>insn_size := 2\<rparr>) = None
   \<and> GetOperand arm_image (arm_insn\<lparr>insn_size := 2\<rparr>) (0, 0) = (True, 0, 0)
   \<and> arm_wildcard_type o_imm \<and> \<not> arm_wildcard_type o_reg"
proof -
  have a: "IS_ARM arm_image" by (simp add: arm_image_def)
  have f: "find (\<lambda>op. arm_wildcard_type (optype op)) (ops (arm_insn\<lparr>insn_size := k\<rparr>))
             = Some \<lparr>optype = o_imm, offb = 0\<rparr>"
    "find (\<lambda>op. arm_wildcard_type (optype op)) (ops arm_insn)
             = Some \<lparr>optype = o_imm, offb = 0\<rparr>" for k
    by (simp_all add: arm_insn_def)
  from arm_policy [OF a, of arm_insn o_imm]
  have "maskable_operand arm_image arm_insn = Some (0, 3)" "arm_wildcard_type o_imm"
    by (simp_all add: f) (simp add: arm_insn_def)
  moreover from arm_policy [OF a, of "arm_insn\<lparr>insn_size := 8\<rparr>" o_reg]
  have "maskable_operand arm_image (arm_insn\<lparr>insn_size := 8\<rparr>) = Some (0, 7)"
    "\<not> arm_wildcard_type o_reg"
    by (simp_all add: f)
  moreover from arm_policy [OF a, of "arm_insn\<lparr>insn_size := 2\<rparr>" o_reg]
  have "maskable_operand arm_image (arm_insn\<lparr>insn_size := 2\<rparr>) = None"
    "GetOperand arm_image (arm_insn\<lparr>insn_size := 2\<rparr>) (0, 0) = (True, 0, 0)"
    by (simp_all add: f)
  ultimately show ?thesis using a by blast
qed

section \<open>The append rule\<close>

lemma GetOperand_ops_offset: "GetOperand_ops sz os (o1, l1) = (True, off, len) \<Longrightarrow> off \<noteq> 0"
  by (induction os) (auto split: if_splits)

lemma GetOperand_zero_offset:
  assumes "GetOperand env insn (0, 0) = (True, 0, len)" "len > 0"
  shows "(insn_size insn = 4 \<and> len = 3) \<or> (insn_size insn = 8 \<and> len = 7)"
proof (cases "IS_ARM env")
  case True
  with assms show ?thesis
    by (auto simp: GetOperand_def GetOperandOffsetARM_def GetOperandOffsetARM_ops_find
        split: option.splits if_splits)
next
  case False
  with assms(1) have "GetOperand_ops (insn_size insn) (ops insn) (0, 0) = (True, 0, len)"
    by (simp add: GetOperand_def)
  from GetOperand_ops_offset [OF this] show ?thesis by simp
qed

lemma bytes_at_shift:
  "bytes_at env (a + of_nat m) w [0..<k] = bytes_at env a w [m..<m + k]"
proof -
  have "[m..<m + k] = map (\<lambda>i. i + m) [0..<k]"
    by (simp add: map_add_upt add.commute)
  then show ?thesis
    by (simp add: bytes_at_def o_def ac_simps)
qed

lemma unat_ucast_8_64: "unat (ucast (x :: 8 word) :: 64 word) = unat x"
  by transfer simp

lemma ucast_8_64_of_nat: "(ucast (x :: 8 word) :: 64 word) = of_nat (unat x)"
  by simp

lemma unat_word_of_int_64:
  "0 \<le> n \<Longrightarrow> n < 65536 \<Longrightarrow> unat (word_of_int n :: 64 word) = nat n"
  by (simp add: unat_eq_nat_uint uint_word_of_int)

lemma bytes_at_ucast:
  "bytes_at env (a + ucast (m :: 8 word)) w [0..<k] = bytes_at env a w [unat m..<unat m + k]"
  using bytes_at_shift [of env a "unat m" w k] by simp

lemma AddBytesToSignature_ucast:
  "AddBytesToSignature env sig (a + ucast (m :: 8 word)) (ucast (k :: 8 word)) w =
     sig @ bytes_at env a w [unat m..<unat m + unat k]"
  by (simp only: AddBytesToSignature_def unat_ucast_8_64 bytes_at_ucast)

lemma AddBytesToSignature_ucast0:
  "AddBytesToSignature env sig a (ucast (k :: 8 word)) w =
     sig @ bytes_at env a w [0..<unat k]"
  by (simp only: AddBytesToSignature_def unat_ucast_8_64)

lemma AddBytesToSignature_rest:
  assumes "uint (k :: 8 word) \<le> n" "n < 65536"
  shows "AddBytesToSignature env sig (a + ucast k) (word_of_int (n - uint k)) w =
     sig @ bytes_at env a w [unat k..<nat n]"
proof -
  have "0 \<le> n - uint k" using assms(1) by simp
  moreover have "n - uint k < 65536" using assms(2) uint_ge_0 [of k] by linarith
  ultimately have "unat (word_of_int (n - uint k) :: 64 word) = nat (n - uint k)"
    by (rule unat_word_of_int_64)
  moreover have "unat k + nat (n - uint k) = nat n"
    using assms(1) uint_ge_0 [of k] unat_eq_nat_uint [of k] by linarith
  ultimately show ?thesis
    by (simp only: AddBytesToSignature_def bytes_at_ucast)
qed

lemma AddBytesToSignature_0: "AddBytesToSignature env sig a 0 w = sig"
  by (simp add: AddBytesToSignature_def bytes_at_def)

text \<open>
  Claim C2. For a decoded instruction (the decoder returns its size, which is
  positive), the builders append to the signature: when operand wildcarding is enabled
  and the policy gives a range \<open>(off, len)\<close> with \<open>len > 0\<close>, the bytes \<open>[0, off)\<close> of
  the instruction as literals, the bytes \<open>[off, off + len)\<close> as wildcards and, exactly
  when \<open>off = 0\<close>, the bytes \<open>[len, n)\<close> as literals; otherwise (wildcarding disabled,
  no operand qualifies, or the length is 0) all \<open>n\<close> bytes of the instruction as
  literals.
\<close>

theorem append_rule:
  assumes "0 < n" and "n = uint (insn_size insn)"
  shows "AddInstruction env w insn a n sig =
     sig @ (case (if w then maskable_operand env insn else None) of
        None \<Rightarrow> bytes_at env a False [0..<nat n]
      | Some (off, len) \<Rightarrow>
          bytes_at env a False [0..<unat off] @
          bytes_at env a True [unat off..<unat off + unat len] @
          (if off = 0 then bytes_at env a False [unat len..<nat n] else []))"
proof -
  obtain found off len where g: "GetOperand env insn (0, 0) = (found, off, len)"
    by (cases "GetOperand env insn (0, 0)") auto
  have n16: "n < 65536"
    using assms(2) uint_lt2p [of "insn_size insn"] by simp
  have whole: "AddBytesToSignature env sig a (word_of_int n) False =
      sig @ bytes_at env a False [0..<nat n]"
    using assms(1) n16 by (simp add: AddBytesToSignature_def unat_word_of_int_64)
  show ?thesis
  proof (cases "w \<and> found \<and> len > 0")
    case False
    then show ?thesis
      using g whole by (auto simp: AddInstruction_def maskable_operand_def)
  next
    case True
    then have m: "(if w then maskable_operand env insn else None) = Some (off, len)"
      using g by (simp add: maskable_operand_def)
    show ?thesis
    proof (cases "off = 0")
      case False
      then show ?thesis
        using True g m
        by (simp add: AddInstruction_def AddBytesToSignature_ucast0 bytes_at_ucast Let_def)
    next
      case off0: True
      with True g have "GetOperand env insn (0, 0) = (True, 0, len)" by simp
      from GetOperand_zero_offset [OF this] True
      have "(insn_size insn = 4 \<and> len = 3) \<or> (insn_size insn = 8 \<and> len = 7)" by simp
      then have le: "uint len \<le> n" using assms(2) by auto
      show ?thesis
        using True g m off0 AddBytesToSignature_rest [OF le n16]
        by (simp add: AddInstruction_def AddBytesToSignature_ucast0 bytes_at_ucast
            AddBytesToSignature_0 bytes_at_def Let_def)
    qed
  qed
qed

theorem append_rule_witness:
  "(0::int) < 5 \<and> (5::int) = uint (insn_size x86_insn)
   \<and> AddInstruction x86_image True x86_insn 16 5 [] =
       [\<lparr>value = 16, isWildcard = False\<rparr>, \<lparr>value = 17, isWildcard = True\<rparr>,
        \<lparr>value = 18, isWildcard = True\<rparr>, \<lparr>value = 19, isWildcard = True\<rparr>,
        \<lparr>value = 20, isWildcard = True\<rparr>]
   \<and> AddInstruction arm_image True arm_insn 16 4 [] =
       [\<lparr>value = 16, isWildcard = True\<rparr>, \<lparr>value = 17, isWildcard = True\<rparr>,
        \<lparr>value = 18, isWildcard = True\<rparr>, \<lparr>value = 19, isWildcard = False\<rparr>]
   \<and> AddInstruction x86_image False x86_insn 16 5 [] =
       [\<lparr>value = 16, isWildcard = False\<rparr>, \<lparr>value = 17, isWildcard = False\<rparr>,
        \<lparr>value = 18, isWildcard = False\<rparr>, \<lparr>value = 19, isWildcard = False\<rparr>,
        \<lparr>value = 20, isWildcard = False\<rparr>]"
proof -
  have n5: "(0::int) < 5" "(5::int) = uint (insn_size x86_insn)"
    by (simp_all add: x86_insn_def)
  have n4: "(0::int) < 4" "(4::int) = uint (insn_size arm_insn)"
    by (simp_all add: arm_insn_def)
  have "AddInstruction x86_image True x86_insn 16 5 [] =
       [\<lparr>value = 16, isWildcard = False\<rparr>, \<lparr>value = 17, isWildcard = True\<rparr>,
        \<lparr>value = 18, isWildcard = True\<rparr>, \<lparr>value = 19, isWildcard = True\<rparr>,
        \<lparr>value = 20, isWildcard = True\<rparr>]"
    unfolding append_rule [OF n5] by code_simp
  moreover have "AddInstruction arm_image True arm_insn 16 4 [] =
       [\<lparr>value = 16, isWildcard = True\<rparr>, \<lparr>value = 17, isWildcard = True\<rparr>,
        \<lparr>value = 18, isWildcard = True\<rparr>, \<lparr>value = 19, isWildcard = False\<rparr>]"
    unfolding append_rule [OF n4] by code_simp
  moreover have "AddInstruction x86_image False x86_insn 16 5 [] =
       [\<lparr>value = 16, isWildcard = False\<rparr>, \<lparr>value = 17, isWildcard = False\<rparr>,
        \<lparr>value = 18, isWildcard = False\<rparr>, \<lparr>value = 19, isWildcard = False\<rparr>,
        \<lparr>value = 20, isWildcard = False\<rparr>]"
    unfolding append_rule [OF n5] by code_simp
  ultimately show ?thesis using n5 by blast
qed

section \<open>The growing builder: the loop and its rounds\<close>

lemma rounds_loop:
  "GenerateUniqueSignatureForEA_rounds k env ea w c m ask f v s = Some (v', s') \<Longrightarrow>
   GenerateUniqueSignatureForEA_loop env ea w c m ask f v s =
   GenerateUniqueSignatureForEA_loop env ea w c m ask f v' s'"
proof (induction k arbitrary: v s)
  case 0
  then show ?case by simp
next
  case (Suc k)
  then show ?case
    by (subst GenerateUniqueSignatureForEA_loop.simps)
       (auto split: option.splits round.splits)
qed

lemma loop_trace:
  assumes "GenerateUniqueSignatureForEA_loop env ea w c m ask f v s = Some r"
  shows "\<exists>k v' s'. GenerateUniqueSignatureForEA_rounds k env ea w c m ask f v s = Some (v', s')
           \<and> GenerateUniqueSignatureForEA_round env ea w c m ask f v' s' = Some (Return r)"
proof (rule GenerateUniqueSignatureForEA_loop.raw_induct
    [where P = "\<lambda>env ea w c m ask f v s r.
       \<exists>k v' s'. GenerateUniqueSignatureForEA_rounds k env ea w c m ask f v s = Some (v', s')
           \<and> GenerateUniqueSignatureForEA_round env ea w c m ask f v' s' = Some (Return r)",
     OF _ assms])
  fix loop :: "ida \<Rightarrow> ea_t \<Rightarrow> bool \<Rightarrow> bool \<Rightarrow> size_t \<Rightarrow> bool \<Rightarrow> nat option \<Rightarrow> locals \<Rightarrow> io
     \<Rightarrow> outcome option"
  fix env ea w c m ask f v s r
  assume IH: "\<And>env ea w c m ask f v s r. loop env ea w c m ask f v s = Some r \<Longrightarrow>
     \<exists>k v' s'. GenerateUniqueSignatureForEA_rounds k env ea w c m ask f v s = Some (v', s')
           \<and> GenerateUniqueSignatureForEA_round env ea w c m ask f v' s' = Some (Return r)"
  assume eq: "(case GenerateUniqueSignatureForEA_round env ea w c m ask f v s of
      None \<Rightarrow> None | Some (Return r) \<Rightarrow> Some r
      | Some (Continue v' s') \<Rightarrow> loop env ea w c m ask f v' s') = Some r"
  show "\<exists>k v' s'. GenerateUniqueSignatureForEA_rounds k env ea w c m ask f v s = Some (v', s')
           \<and> GenerateUniqueSignatureForEA_round env ea w c m ask f v' s' = Some (Return r)"
  proof (cases "GenerateUniqueSignatureForEA_round env ea w c m ask f v s")
    case None
    with eq show ?thesis by simp
  next
    case (Some rd)
    show ?thesis
    proof (cases rd)
      case (Return r')
      with Some eq have "GenerateUniqueSignatureForEA_rounds 0 env ea w c m ask f v s = Some (v, s)
           \<and> GenerateUniqueSignatureForEA_round env ea w c m ask f v s = Some (Return r)"
        by simp
      then show ?thesis by blast
    next
      case (Continue v1 s1)
      with Some eq have "loop env ea w c m ask f v1 s1 = Some r" by simp
      from IH [OF this] obtain k v' s' where
        "GenerateUniqueSignatureForEA_rounds k env ea w c m ask f v1 s1 = Some (v', s')"
        "GenerateUniqueSignatureForEA_round env ea w c m ask f v' s' = Some (Return r)"
        by blast
      with Some Continue have
        "GenerateUniqueSignatureForEA_rounds (Suc k) env ea w c m ask f v s = Some (v', s')
         \<and> GenerateUniqueSignatureForEA_round env ea w c m ask f v' s' = Some (Return r)"
        by simp
      then show ?thesis by blast
    qed
  qed
qed


lemma rounds_snoc:
  "GenerateUniqueSignatureForEA_rounds (Suc k) env ea w c m ask f v s =
     (case GenerateUniqueSignatureForEA_rounds k env ea w c m ask f v s of
        None \<Rightarrow> None
      | Some (v1, s1) \<Rightarrow>
          (case GenerateUniqueSignatureForEA_round env ea w c m ask f v1 s1 of
             Some (Continue v' s') \<Rightarrow> Some (v', s')
           | _ \<Rightarrow> None))"
proof (induction k arbitrary: v s)
  case 0
  show ?case by (simp split: option.splits round.splits)
next
  case (Suc k)
  show ?case
  proof (cases "GenerateUniqueSignatureForEA_round env ea w c m ask f v s")
    case None
    then show ?thesis by simp
  next
    case (Some rd)
    show ?thesis
    proof (cases rd)
      case (Return r)
      with Some show ?thesis by simp
    next
      case (Continue v1 s1)
      have "GenerateUniqueSignatureForEA_rounds (Suc (Suc k)) env ea w c m ask f v s =
            GenerateUniqueSignatureForEA_rounds (Suc k) env ea w c m ask f v1 s1"
        using Some Continue by simp
      also note Suc.IH [of v1 s1]
      finally show ?thesis using Some Continue by simp
    qed
  qed
qed

lemma in_round_loop:
  assumes "in_round env ea w c m ask s0 k v s"
  shows "GenerateUniqueSignatureForEA env ea w c m ask s0 =
         GenerateUniqueSignatureForEA_loop env ea w c m ask (get_func env ea) v s"
  using assms rounds_loop [of k env ea w c m ask "get_func env ea"
      "\<lparr>signature = [], sigPartLength = 0, currentAddress = ea\<rparr>" s0 v s]
  by (simp add: in_round_def GenerateUniqueSignatureForEA_def)


lemma round_decode_failed:
  assumes "\<not> user_cancelled env (polls s)" "fst (decode_insn env (currentAddress v)) \<le> 0"
  shows "GenerateUniqueSignatureForEA_round env ea w c m ask f v s =
     Some (Return (if signature v = [] then (Inl DecodeFailed, poll s)
        else (Inl NotUnique,
              msg (NotUniqueSignature ea (BuildIDASignatureString (signature v)))
                (msg (ReachedEnd (currentAddress v)) (poll s)))))"
  using assms
  by (cases "decode_insn env (currentAddress v)")
     (simp add: GenerateUniqueSignatureForEA_round_def)

lemma round_decoded:
  assumes "\<not> user_cancelled env (polls s)" "decode_insn env (currentAddress v) = (n, insn)"
    "0 < n"
  shows "GenerateUniqueSignatureForEA_round env ea w c m ask f v s =
     (case LengthCheck env ea m ask v (poll s) of
        Inl r \<Rightarrow> Some (Return r)
      | Inr (partLength, s') \<Rightarrow>
          GrowAndTest env w c f insn n (v\<lparr>sigPartLength := partLength\<rparr>) s')"
  using assms by (simp add: GenerateUniqueSignatureForEA_round_def)

lemma loop_Return:
  "GenerateUniqueSignatureForEA_round env ea w c m ask f v s = Some (Return r) \<Longrightarrow>
   GenerateUniqueSignatureForEA_loop env ea w c m ask f v s = Some r"
  by (subst GenerateUniqueSignatureForEA_loop.simps) simp

lemma IsSignatureUnique_True:
  "IsSignatureUnique env (BuildIDASignatureString g) = Some True \<longleftrightarrow>
   occurrence_count env g = Some 1"
  by (auto simp: IsSignatureUnique_def occurrence_count_def)

lemma IsSignatureUnique_False:
  "IsSignatureUnique env (BuildIDASignatureString g) = Some False \<longleftrightarrow>
   (\<exists>n. occurrence_count env g = Some n \<and> n \<noteq> 1)"
  by (auto simp: IsSignatureUnique_def occurrence_count_def)

lemma GrowAndTest_success:
  assumes "GrowAndTest env w c f insn n v s = Some (Return (Inr sig, s'))"
  shows "IsSignatureUnique env (BuildIDASignatureString
            (AddInstruction env w insn (currentAddress v) n (signature v))) = Some True
         \<and> sig = TrimSignature (AddInstruction env w insn (currentAddress v) n (signature v))"
  using assms
  by (auto simp: GrowAndTest_def Let_def split: option.splits if_splits)

lemma GrowAndTest_continue:
  assumes "GrowAndTest env w c f insn n v s = Some (Continue v' s')"
  shows "IsSignatureUnique env (BuildIDASignatureString (signature v')) = Some False
         \<and> signature v' = AddInstruction env w insn (currentAddress v) n (signature v)
         \<and> currentAddress v' = currentAddress v + word_of_int n"
  using assms
  by (auto simp: GrowAndTest_def Let_def split: option.splits if_splits)

lemma GrowAndTest_unique:
  assumes "IsSignatureUnique env (BuildIDASignatureString
            (AddInstruction env w insn (currentAddress v) n (signature v))) = Some True"
  shows "GrowAndTest env w c f insn n v s =
     Some (Return (Inr (TrimSignature
        (AddInstruction env w insn (currentAddress v) n (signature v))), s))"
  using assms by (simp add: GrowAndTest_def Let_def)

lemma GrowAndTest_no_function:
  "GrowAndTest env w c None insn n v s \<noteq> Some (Return (Inl LeftFunctionScope, s'))"
  by (auto simp: GrowAndTest_def Let_def split: option.splits if_splits)

lemma LengthCheck_Inl:
  "LengthCheck env ea m ask v s = Inl (r, s') \<Longrightarrow> r \<in> {Inl NotUnique, Inl Aborted, Inl LengthExceeded}"
  by (auto simp: LengthCheck_def Let_def split: if_splits)

lemma round_success:
  assumes "GenerateUniqueSignatureForEA_round env ea w c m ask f v s = Some (Return (Inr sig, s'))"
  shows "IsSignatureUnique env (BuildIDASignatureString
            (AddInstruction env w (snd (decode_insn env (currentAddress v))) (currentAddress v)
               (fst (decode_insn env (currentAddress v))) (signature v))) = Some True
         \<and> sig = TrimSignature (AddInstruction env w (snd (decode_insn env (currentAddress v)))
               (currentAddress v) (fst (decode_insn env (currentAddress v))) (signature v))"
proof -
  obtain n insn where d: "decode_insn env (currentAddress v) = (n, insn)"
    by (cases "decode_insn env (currentAddress v)") auto
  from assms d obtain p s1 where
    "LengthCheck env ea m ask v (poll s) = Inr (p, s1)"
    "GrowAndTest env w c f insn n (v\<lparr>sigPartLength := p\<rparr>) s1 = Some (Return (Inr sig, s'))"
    by (auto simp: GenerateUniqueSignatureForEA_round_def Let_def
        split: if_splits sum.splits dest: LengthCheck_Inl)
  from GrowAndTest_success [OF this(2)] d show ?thesis by auto
qed

lemma round_continue:
  assumes "GenerateUniqueSignatureForEA_round env ea w c m ask f v s = Some (Continue v' s')"
  shows "IsSignatureUnique env (BuildIDASignatureString (signature v')) = Some False
         \<and> signature v' = AddInstruction env w (snd (decode_insn env (currentAddress v)))
               (currentAddress v) (fst (decode_insn env (currentAddress v))) (signature v)
         \<and> currentAddress v' = currentAddress v
               + word_of_int (fst (decode_insn env (currentAddress v)))"
proof -
  obtain n insn where d: "decode_insn env (currentAddress v) = (n, insn)"
    by (cases "decode_insn env (currentAddress v)") auto
  from assms d obtain p s1 where
    "GrowAndTest env w c f insn n (v\<lparr>sigPartLength := p\<rparr>) s1 = Some (Continue v' s')"
    by (auto simp: GenerateUniqueSignatureForEA_round_def Let_def
        split: if_splits sum.splits)
  from GrowAndTest_continue [OF this] d show ?thesis by auto
qed

lemma round_no_function:
  "GenerateUniqueSignatureForEA_round env ea w c m ask None v s
     \<noteq> Some (Return (Inl LeftFunctionScope, s'))"
proof
  assume a: "GenerateUniqueSignatureForEA_round env ea w c m ask None v s
     = Some (Return (Inl LeftFunctionScope, s'))"
  obtain n insn where d: "decode_insn env (currentAddress v) = (n, insn)"
    by (cases "decode_insn env (currentAddress v)") auto
  from a d obtain p s1 where
    "GrowAndTest env w c None insn n (v\<lparr>sigPartLength := p\<rparr>) s1
       = Some (Return (Inl LeftFunctionScope, s'))"
    by (auto simp: GenerateUniqueSignatureForEA_round_def Let_def
        split: if_splits sum.splits dest: LengthCheck_Inl)
  with GrowAndTest_no_function show False by blast
qed

lemma rounds_prefix:
  assumes "GenerateUniqueSignatureForEA_rounds k env ea w c m ask f
             \<lparr>signature = [], sigPartLength = 0, currentAddress = ea\<rparr> s0 = Some (v, s)"
  shows "signature v = signature_after env w ea k \<and> currentAddress v = cursor_after env ea k
         \<and> (\<forall>j<k. \<exists>n. occurrence_count env (signature_after env w ea (Suc j)) = Some n \<and> n \<noteq> 1)"
  using assms
proof (induction k arbitrary: v s)
  case 0
  then show ?case by auto
next
  case (Suc k)
  from Suc.prems obtain v1 s1 where
    r: "GenerateUniqueSignatureForEA_rounds k env ea w c m ask f
             \<lparr>signature = [], sigPartLength = 0, currentAddress = ea\<rparr> s0 = Some (v1, s1)"
    and c: "GenerateUniqueSignatureForEA_round env ea w c m ask f v1 s1 = Some (Continue v s)"
    unfolding rounds_snoc by (auto split: option.splits round.splits)
  note ih = Suc.IH [OF r]
  note rc = round_continue [OF c]
  from ih have v1: "signature v1 = signature_after env w ea k"
    "currentAddress v1 = cursor_after env ea k"
    by blast+
  from rc have sig: "signature v = signature_after env w ea (Suc k)"
    unfolding v1 by simp
  from rc have cur: "currentAddress v = cursor_after env ea (Suc k)"
    unfolding v1 by simp
  from rc have "IsSignatureUnique env (BuildIDASignatureString (signature v)) = Some False"
    by blast
  then have "\<exists>n. occurrence_count env (signature_after env w ea (Suc k)) = Some n \<and> n \<noteq> 1"
    unfolding sig IsSignatureUnique_False .
  with ih have "\<forall>j<Suc k. \<exists>n. occurrence_count env (signature_after env w ea (Suc j)) = Some n \<and> n \<noteq> 1"
    by (auto simp: less_Suc_eq)
  with sig cur show ?case by blast
qed

lemma loop_round_cong:
  assumes "GenerateUniqueSignatureForEA_round env ea w c m ask f v s =
           GenerateUniqueSignatureForEA_round env ea w c m ask f v' s'"
  shows "GenerateUniqueSignatureForEA_loop env ea w c m ask f v s =
         GenerateUniqueSignatureForEA_loop env ea w c m ask f v' s'"
proof -
  have "GenerateUniqueSignatureForEA_loop env ea w c m ask f v s =
    (case GenerateUniqueSignatureForEA_round env ea w c m ask f v s of
        None \<Rightarrow> None
      | Some (Return r) \<Rightarrow> Some r
      | Some (Continue v' s') \<Rightarrow> GenerateUniqueSignatureForEA_loop env ea w c m ask f v' s')"
    by (rule GenerateUniqueSignatureForEA_loop.simps)
  also have "\<dots> =
    (case GenerateUniqueSignatureForEA_round env ea w c m ask f v' s' of
        None \<Rightarrow> None
      | Some (Return r) \<Rightarrow> Some r
      | Some (Continue v' s') \<Rightarrow> GenerateUniqueSignatureForEA_loop env ea w c m ask f v' s')"
    unfolding assms ..
  also have "\<dots> = GenerateUniqueSignatureForEA_loop env ea w c m ask f v' s'"
    by (rule GenerateUniqueSignatureForEA_loop.simps [symmetric])
  finally show ?thesis .
qed

section \<open>The growing builder: claims\<close>

text \<open>
  Claim C1. If the growing builder returns a signature, then it returns from the first
  round at which the signature built so far has exactly one occurrence in the image:
  there is a number \<open>k\<close> such that the signature of the first \<open>k + 1\<close> instructions
  from the anchor on is found exactly once by a scan of the whole image, the result is
  that signature with its trailing wildcards trimmed, and for every shorter prefix of
  \<open>j + 1\<close> instructions, \<open>j < k\<close>, the scan of the image ended with a number of
  occurrences other than one.
\<close>

theorem first_unique_prefix:
  assumes "GenerateUniqueSignatureForEA env ea w c m ask s0 = Some (Inr sig, s')"
  shows "\<exists>k. occurrence_count env (signature_after env w ea (Suc k)) = Some 1
           \<and> sig = TrimSignature (signature_after env w ea (Suc k))
           \<and> (\<forall>j<k. \<exists>n. occurrence_count env (signature_after env w ea (Suc j)) = Some n
                      \<and> n \<noteq> 1)"
proof -
  from assms have
    "GenerateUniqueSignatureForEA_loop env ea w c m ask (get_func env ea)
       \<lparr>signature = [], sigPartLength = 0, currentAddress = ea\<rparr> s0 = Some (Inr sig, s')"
    by (auto simp: GenerateUniqueSignatureForEA_def split: if_splits)
  from loop_trace [OF this] obtain k v s where
    r: "GenerateUniqueSignatureForEA_rounds k env ea w c m ask (get_func env ea)
       \<lparr>signature = [], sigPartLength = 0, currentAddress = ea\<rparr> s0 = Some (v, s)"
    and t: "GenerateUniqueSignatureForEA_round env ea w c m ask (get_func env ea) v s
       = Some (Return (Inr sig, s'))"
    by blast
  note p = rounds_prefix [OF r]
  note u = round_success [OF t]
  from p have v: "signature v = signature_after env w ea k"
    "currentAddress v = cursor_after env ea k"
    by blast+
  have g: "AddInstruction env w (snd (decode_insn env (currentAddress v))) (currentAddress v)
               (fst (decode_insn env (currentAddress v))) (signature v)
           = signature_after env w ea (Suc k)"
    unfolding v by simp
  have "occurrence_count env (signature_after env w ea (Suc k)) = Some 1
           \<and> sig = TrimSignature (signature_after env w ea (Suc k))"
    using u unfolding g by (simp add: IsSignatureUnique_True)
  with p show ?thesis by blast
qed

theorem first_unique_prefix_witness:
  "GenerateUniqueSignatureForEA x86_image 16 True False 1000 True io0 =
     Some (Inr [\<lparr>value = 16, isWildcard = False\<rparr>, \<lparr>value = 17, isWildcard = True\<rparr>,
                \<lparr>value = 18, isWildcard = True\<rparr>, \<lparr>value = 19, isWildcard = True\<rparr>,
                \<lparr>value = 20, isWildcard = True\<rparr>, \<lparr>value = 21, isWildcard = False\<rparr>],
           io0\<lparr>polls := 2\<rparr>)
   \<and> occurrence_count x86_image (signature_after x86_image True 16 1) = Some 41
   \<and> occurrence_count x86_image (signature_after x86_image True 16 2) = Some 1
   \<and> (\<exists>k. occurrence_count x86_image (signature_after x86_image True 16 (Suc k)) = Some 1
         \<and> [\<lparr>value = 16, isWildcard = False\<rparr>, \<lparr>value = 17, isWildcard = True\<rparr>,
             \<lparr>value = 18, isWildcard = True\<rparr>, \<lparr>value = 19, isWildcard = True\<rparr>,
             \<lparr>value = 20, isWildcard = True\<rparr>, \<lparr>value = 21, isWildcard = False\<rparr>]
            = TrimSignature (signature_after x86_image True 16 (Suc k))
         \<and> (\<forall>j<k. \<exists>n. occurrence_count x86_image (signature_after x86_image True 16 (Suc j))
                       = Some n \<and> n \<noteq> 1))"
proof -
  have run: "GenerateUniqueSignatureForEA x86_image 16 True False 1000 True io0 =
     Some (Inr [\<lparr>value = 16, isWildcard = False\<rparr>, \<lparr>value = 17, isWildcard = True\<rparr>,
                \<lparr>value = 18, isWildcard = True\<rparr>, \<lparr>value = 19, isWildcard = True\<rparr>,
                \<lparr>value = 20, isWildcard = True\<rparr>, \<lparr>value = 21, isWildcard = False\<rparr>],
           io0\<lparr>polls := 2\<rparr>)"
    by code_simp
  have c1: "occurrence_count x86_image (signature_after x86_image True 16 1) = Some 41"
    by code_simp
  have c2: "occurrence_count x86_image (signature_after x86_image True 16 2) = Some 1"
    by code_simp
  from first_unique_prefix [OF run] run c1 c2 show ?thesis by blast
qed

text \<open>
  Claim C9. When the builder stands at the start of a round, the user has not
  cancelled and decoding at the cursor fails (the decoder returns no positive length),
  the call fails: with \<open>DecodeFailed\<close> when the signature is still empty, and otherwise
  with \<open>NotUnique\<close> after printing that the end of the code was reached and the
  signature built so far, which is not unique.
\<close>

theorem decode_failure:
  assumes "in_round env ea w c m ask s0 k v s"
    and "\<not> user_cancelled env (polls s)"
    and "fst (decode_insn env (currentAddress v)) \<le> 0"
  shows "GenerateUniqueSignatureForEA env ea w c m ask s0 =
     Some (if signature v = [] then (Inl DecodeFailed, poll s)
        else (Inl NotUnique,
              msg (NotUniqueSignature ea (BuildIDASignatureString (signature v)))
                (msg (ReachedEnd (currentAddress v)) (poll s))))"
  unfolding in_round_loop [OF assms(1)]
  by (rule loop_Return) (rule round_decode_failed [OF assms(2,3)])

theorem decode_failure_witness:
  "in_round x86_image 64 True False 1000 True io0 0
     \<lparr>signature = [], sigPartLength = 0, currentAddress = 64\<rparr> io0
   \<and> \<not> user_cancelled x86_image (polls io0)
   \<and> fst (decode_insn x86_image 64) \<le> 0
   \<and> GenerateUniqueSignatureForEA x86_image 64 True False 1000 True io0 =
       Some (Inl DecodeFailed, io0\<lparr>polls := 1\<rparr>)
   \<and> in_round x86_image 59 True False 1000 True io0 1
       \<lparr>signature = [\<lparr>value = 59, isWildcard = False\<rparr>, \<lparr>value = 60, isWildcard = True\<rparr>,
                     \<lparr>value = 61, isWildcard = True\<rparr>, \<lparr>value = 62, isWildcard = True\<rparr>,
                     \<lparr>value = 63, isWildcard = True\<rparr>],
        sigPartLength = 5, currentAddress = 64\<rparr> (io0\<lparr>polls := 1\<rparr>)
   \<and> GenerateUniqueSignatureForEA x86_image 59 True False 1000 True io0 =
       Some (Inl NotUnique,
             io0\<lparr>polls := 2,
                 messages := [ReachedEnd 64, NotUniqueSignature 59 ''3B ? ? ? ?'']\<rparr>)"
proof -
  let ?v0 = "\<lparr>signature = [], sigPartLength = 0, currentAddress = 64\<rparr>"
  let ?v1 = "\<lparr>signature = [\<lparr>value = 59, isWildcard = False\<rparr>, \<lparr>value = 60, isWildcard = True\<rparr>,
                     \<lparr>value = 61, isWildcard = True\<rparr>, \<lparr>value = 62, isWildcard = True\<rparr>,
                     \<lparr>value = 63, isWildcard = True\<rparr>],
        sigPartLength = 5, currentAddress = 64\<rparr>"
  have r0: "in_round x86_image 64 True False 1000 True io0 0 ?v0 io0"
    by code_simp
  have r1: "in_round x86_image 59 True False 1000 True io0 1 ?v1 (io0\<lparr>polls := 1\<rparr>)"
    by code_simp
  have nc: "\<not> user_cancelled x86_image (polls io0)"
    "\<not> user_cancelled x86_image (polls (io0\<lparr>polls := 1\<rparr>))"
    by (simp_all add: x86_image_def)
  have d: "fst (decode_insn x86_image (currentAddress ?v0)) \<le> 0"
    "fst (decode_insn x86_image (currentAddress ?v1)) \<le> 0"
    by (simp_all add: x86_image_def)
  have "GenerateUniqueSignatureForEA x86_image 64 True False 1000 True io0 =
       Some (Inl DecodeFailed, io0\<lparr>polls := 1\<rparr>)"
    unfolding decode_failure [OF r0 nc(1) d(1)] by code_simp
  moreover have "GenerateUniqueSignatureForEA x86_image 59 True False 1000 True io0 =
       Some (Inl NotUnique,
             io0\<lparr>polls := 2,
                 messages := [ReachedEnd 64, NotUniqueSignature 59 ''3B ? ? ? ?'']\<rparr>)"
    unfolding decode_failure [OF r1 nc(2) d(2)] by code_simp
  ultimately show ?thesis using r0 r1 nc(1) d(1) by simp
qed

text \<open>
  Claim C3, as the code has it. The length is tested at the start of a round (line
  131), after the cancel poll and the decoding of that round and before the round's
  instruction is counted and appended (line 151), so the count that is tested is the
  one of the bytes appended in earlier rounds since the last reset. When the builder
  stands at the start of a round, the user has not cancelled, the instruction at the
  cursor decodes and the byte count \<^verbatim>\<open>sigPartLength\<close> exceeds \<^verbatim>\<open>maxSignatureLength\<close>:
  without prompting the call fails at once with \<open>LengthExceeded\<close>; with prompting, the
  answer Yes makes the call go on as the loop does from the same locals with the count
  reset to 0, the answer No prints the signature as it is at that moment (nothing is
  appended in this round) and fails with \<open>NotUnique\<close>, and any other answer (Cancel)
  fails with \<open>Aborted\<close>.
\<close>

theorem length_overflow:
  assumes "in_round env ea w c m ask s0 k v s"
    and "\<not> user_cancelled env (polls s)"
    and "decode_insn env (currentAddress v) = (n, insn)" and "0 < n"
    and "sigPartLength v > m"
  shows "GenerateUniqueSignatureForEA env ea w c m ask s0 =
     (if \<not> ask then Some (Inl LengthExceeded, poll s)
      else if ask_yn env (prompts s) (length (signature v)) = 1
        then GenerateUniqueSignatureForEA_loop env ea w c m ask (get_func env ea)
               (v\<lparr>sigPartLength := 0\<rparr>) (answered s)
      else if ask_yn env (prompts s) (length (signature v)) = 0
        then Some (Inl NotUnique,
               msg (NotUniqueSignature ea (BuildIDASignatureString (signature v)))
                 (answered (poll s)))
      else Some (Inl Aborted, answered (poll s)))"
proof -
  let ?f = "get_func env ea"
  let ?a = "ask_yn env (prompts s) (length (signature v))"
  have pa: "poll (answered s) = answered (poll s)" "prompts (poll s) = prompts s"
    "polls (answered s) = polls s"
    by (simp_all add: poll_def answered_def)
  note rd = round_decoded [OF assms(2,3,4)]
  consider (noask) "\<not> ask" | (yes) "ask" "?a = 1" | (no) "ask" "?a = 0"
    | (cancel) "ask" "?a \<noteq> 1" "?a \<noteq> 0"
    by blast
  then have "GenerateUniqueSignatureForEA_loop env ea w c m ask ?f v s =
     (if \<not> ask then Some (Inl LengthExceeded, poll s)
      else if ?a = 1
        then GenerateUniqueSignatureForEA_loop env ea w c m ask ?f
               (v\<lparr>sigPartLength := 0\<rparr>) (answered s)
      else if ?a = 0
        then Some (Inl NotUnique,
               msg (NotUniqueSignature ea (BuildIDASignatureString (signature v)))
                 (answered (poll s)))
      else Some (Inl Aborted, answered (poll s)))"
  proof cases
    case noask
    then have "GenerateUniqueSignatureForEA_round env ea w c m ask ?f v s =
        Some (Return (Inl LengthExceeded, poll s))"
      using assms(5) by (simp add: rd LengthCheck_def)
    from loop_Return [OF this] noask show ?thesis by simp
  next
    case no
    then have "GenerateUniqueSignatureForEA_round env ea w c m ask ?f v s =
        Some (Return (Inl NotUnique,
               msg (NotUniqueSignature ea (BuildIDASignatureString (signature v)))
                 (answered (poll s))))"
      using assms(5) by (simp add: rd LengthCheck_def pa)
    from loop_Return [OF this] no show ?thesis by simp
  next
    case cancel
    then have "GenerateUniqueSignatureForEA_round env ea w c m ask ?f v s =
        Some (Return (Inl Aborted, answered (poll s)))"
      using assms(5) by (simp add: rd LengthCheck_def pa)
    from loop_Return [OF this] cancel show ?thesis by simp
  next
    case yes
    have nc: "\<not> user_cancelled env (polls (answered s))"
      using assms(2) by (simp add: pa)
    have d0: "decode_insn env (currentAddress (v\<lparr>sigPartLength := 0\<rparr>)) = (n, insn)"
      using assms(3) by simp
    have "GenerateUniqueSignatureForEA_round env ea w c m ask ?f v s =
          GrowAndTest env w c ?f insn n (v\<lparr>sigPartLength := 0\<rparr>) (answered (poll s))"
      using yes assms(5) by (simp add: rd LengthCheck_def pa)
    moreover have "GenerateUniqueSignatureForEA_round env ea w c m ask ?f
            (v\<lparr>sigPartLength := 0\<rparr>) (answered s) =
          GrowAndTest env w c ?f insn n (v\<lparr>sigPartLength := 0\<rparr>) (answered (poll s))"
      by (simp add: round_decoded [OF nc d0 assms(4)] LengthCheck_def pa)
    ultimately have "GenerateUniqueSignatureForEA_round env ea w c m ask ?f v s =
          GenerateUniqueSignatureForEA_round env ea w c m ask ?f
            (v\<lparr>sigPartLength := 0\<rparr>) (answered s)"
      by simp
    then have "GenerateUniqueSignatureForEA_loop env ea w c m ask ?f v s =
        GenerateUniqueSignatureForEA_loop env ea w c m ask ?f
               (v\<lparr>sigPartLength := 0\<rparr>) (answered s)"
      by (rule loop_round_cong)
    with yes show ?thesis by simp
  qed
  then show ?thesis unfolding in_round_loop [OF assms(1)] .
qed

theorem length_overflow_witness:
  "in_round x86_image 30 True False 3 True io0 1
       \<lparr>signature = [\<lparr>value = 30, isWildcard = False\<rparr>, \<lparr>value = 31, isWildcard = True\<rparr>,
                     \<lparr>value = 32, isWildcard = True\<rparr>, \<lparr>value = 33, isWildcard = True\<rparr>,
                     \<lparr>value = 34, isWildcard = True\<rparr>],
        sigPartLength = 5, currentAddress = 35\<rparr> (io0\<lparr>polls := 1\<rparr>)
   \<and> \<not> user_cancelled x86_image 1
   \<and> decode_insn x86_image 35 = (5, x86_insn) \<and> (0::int) < 5 \<and> (5::size_t) > 3
   \<and> ask_yn x86_image 0 5 = 0
   \<and> GenerateUniqueSignatureForEA x86_image 30 True False 3 True io0 =
       Some (Inl NotUnique,
             io0\<lparr>polls := 2, prompts := 1,
                 messages := [NotUniqueSignature 30 ''1E ? ? ? ?'']\<rparr>)
   \<and> GenerateUniqueSignatureForEA x86_image 30 True False 3 False io0 =
       Some (Inl LengthExceeded, io0\<lparr>polls := 2\<rparr>)
   \<and> GenerateUniqueSignatureForEA x86_image_cancel 30 True False 3 True io0 =
       Some (Inl Aborted, io0\<lparr>polls := 2, prompts := 1\<rparr>)
   \<and> GenerateUniqueSignatureForEA x86_image_yes 30 True False 3 True io0 =
       Some (Inr [\<lparr>value = 30, isWildcard = False\<rparr>, \<lparr>value = 31, isWildcard = True\<rparr>,
                  \<lparr>value = 32, isWildcard = True\<rparr>, \<lparr>value = 33, isWildcard = True\<rparr>,
                  \<lparr>value = 34, isWildcard = True\<rparr>, \<lparr>value = 35, isWildcard = False\<rparr>],
             io0\<lparr>polls := 2, prompts := 1\<rparr>)"
proof -
  let ?v = "\<lparr>signature = [\<lparr>value = 30, isWildcard = False\<rparr>, \<lparr>value = 31, isWildcard = True\<rparr>,
                     \<lparr>value = 32, isWildcard = True\<rparr>, \<lparr>value = 33, isWildcard = True\<rparr>,
                     \<lparr>value = 34, isWildcard = True\<rparr>],
        sigPartLength = 5, currentAddress = 35\<rparr>"
  let ?s = "io0\<lparr>polls := 1\<rparr>"
  have r: "in_round x86_image 30 True False 3 True io0 1 ?v ?s"
    "in_round x86_image 30 True False 3 False io0 1 ?v ?s"
    "in_round x86_image_cancel 30 True False 3 True io0 1 ?v ?s"
    "in_round x86_image_yes 30 True False 3 True io0 1 ?v ?s"
    by code_simp+
  have nc: "\<not> user_cancelled x86_image (polls ?s)"
    "\<not> user_cancelled x86_image_cancel (polls ?s)"
    "\<not> user_cancelled x86_image_yes (polls ?s)"
    by (simp_all add: x86_image_def x86_image_cancel_def x86_image_yes_def)
  have d: "decode_insn x86_image (currentAddress ?v) = (5, x86_insn)"
    "decode_insn x86_image_cancel (currentAddress ?v) = (5, x86_insn)"
    "decode_insn x86_image_yes (currentAddress ?v) = (5, x86_insn)"
    by (simp_all add: x86_image_def x86_image_cancel_def x86_image_yes_def)
  have n: "(0::int) < 5" by simp
  have o: "sigPartLength ?v > 3" by simp
  have "GenerateUniqueSignatureForEA x86_image 30 True False 3 True io0 =
       Some (Inl NotUnique,
             io0\<lparr>polls := 2, prompts := 1,
                 messages := [NotUniqueSignature 30 ''1E ? ? ? ?'']\<rparr>)"
    unfolding length_overflow [OF r(1) nc(1) d(1) n o] by code_simp
  moreover have "GenerateUniqueSignatureForEA x86_image 30 True False 3 False io0 =
       Some (Inl LengthExceeded, io0\<lparr>polls := 2\<rparr>)"
    unfolding length_overflow [OF r(2) nc(1) d(1) n o] by code_simp
  moreover have "GenerateUniqueSignatureForEA x86_image_cancel 30 True False 3 True io0 =
       Some (Inl Aborted, io0\<lparr>polls := 2, prompts := 1\<rparr>)"
    unfolding length_overflow [OF r(3) nc(2) d(2) n o] by code_simp
  moreover have "GenerateUniqueSignatureForEA x86_image_yes 30 True False 3 True io0 =
       Some (Inr [\<lparr>value = 30, isWildcard = False\<rparr>, \<lparr>value = 31, isWildcard = True\<rparr>,
                  \<lparr>value = 32, isWildcard = True\<rparr>, \<lparr>value = 33, isWildcard = True\<rparr>,
                  \<lparr>value = 34, isWildcard = True\<rparr>, \<lparr>value = 35, isWildcard = False\<rparr>],
             io0\<lparr>polls := 2, prompts := 1\<rparr>)"
    unfolding length_overflow [OF r(4) nc(3) d(3) n o] by code_simp
  moreover have "\<not> user_cancelled x86_image 1" "decode_insn x86_image 35 = (5, x86_insn)"
    "ask_yn x86_image 0 5 = 0"
    by (simp_all add: x86_image_def)
  ultimately show ?thesis using r(1) by simp
qed

text \<open>
  The claim as stated lets the builder fail with \<open>LengthExceeded\<close> as soon as the count
  of the appended bytes exceeds the cap. The round that takes the count over the cap
  still makes its uniqueness test and its function test, and the next round polls for
  a cancel and decodes before it tests the length. With instructions of 5 bytes and
  no prompting: from 30 with cap 5 the builder returns a signature after appending
  10 bytes, and from 40 with cap 0 after appending 5; with cap 3 and a count of 5 it
  fails with \<open>NotUnique\<close> from 59 (the code ends at 64), with \<open>LeftFunctionScope\<close> from 21
  (the function ends at 26) and with \<open>Aborted\<close> from 30 when the user cancels at the
  second poll.
\<close>

theorem length_overflow_counterexample:
  "length (signature_after x86_image True 30 2) = 10
   \<and> GenerateUniqueSignatureForEA x86_image 30 True False 5 False io0 =
       Some (Inr [\<lparr>value = 30, isWildcard = False\<rparr>, \<lparr>value = 31, isWildcard = True\<rparr>,
                  \<lparr>value = 32, isWildcard = True\<rparr>, \<lparr>value = 33, isWildcard = True\<rparr>,
                  \<lparr>value = 34, isWildcard = True\<rparr>, \<lparr>value = 35, isWildcard = False\<rparr>],
             io0\<lparr>polls := 2\<rparr>)
   \<and> length (signature_after xref_image True 40 1) = 5
   \<and> GenerateUniqueSignatureForEA xref_image 40 True False 0 False io0 =
       Some (Inr [\<lparr>value = 40, isWildcard = False\<rparr>], io0\<lparr>polls := 1\<rparr>)
   \<and> length (signature_after x86_image True 59 1) = 5
   \<and> GenerateUniqueSignatureForEA x86_image 59 True False 3 False io0 =
       Some (Inl NotUnique,
             io0\<lparr>polls := 2,
                   messages := [ReachedEnd 64, NotUniqueSignature 59 ''3B ? ? ? ?'']\<rparr>)
   \<and> length (signature_after x86_image True 21 1) = 5
   \<and> GenerateUniqueSignatureForEA x86_image 21 True False 3 False io0 =
       Some (Inl LeftFunctionScope, io0\<lparr>polls := 1\<rparr>)
   \<and> length (signature_after x86_image_cancelled True 30 1) = 5
   \<and> GenerateUniqueSignatureForEA x86_image_cancelled 30 True False 3 False io0 =
       Some (Inl Aborted, io0\<lparr>polls := 2\<rparr>)"
  by code_simp

text \<open>
  Claim C10. When the anchor address has no enclosing function, the growing builder
  never fails with \<open>LeftFunctionScope\<close>, whatever \<^verbatim>\<open>continueOutsideOfFunction\<close> is. And
  in a round the uniqueness test comes before the scope check: when the builder stands
  at the start of a round, the user has not cancelled, the instruction decodes, the
  length check lets the round go on and the signature with this instruction appended
  has exactly one occurrence, the call returns that signature trimmed, whatever
  function the next address belongs to.
\<close>

theorem function_scope:
  "(get_func env ea = None \<longrightarrow>
      GenerateUniqueSignatureForEA env ea w c m ask s0 \<noteq> Some (Inl LeftFunctionScope, s'))
   \<and> (in_round env ea w c m ask s0 k v s \<and> \<not> user_cancelled env (polls s)
        \<and> decode_insn env (currentAddress v) = (n, insn) \<and> 0 < n
        \<and> LengthCheck env ea m ask v (poll s) = Inr (p, s1)
        \<and> occurrence_count env (AddInstruction env w insn (currentAddress v) n (signature v))
            = Some 1
      \<longrightarrow> GenerateUniqueSignatureForEA env ea w c m ask s0 =
            Some (Inr (TrimSignature
              (AddInstruction env w insn (currentAddress v) n (signature v))), s1))"
proof (intro conjI impI)
  assume nf: "get_func env ea = None"
  show "GenerateUniqueSignatureForEA env ea w c m ask s0 \<noteq> Some (Inl LeftFunctionScope, s')"
  proof
    assume "GenerateUniqueSignatureForEA env ea w c m ask s0 = Some (Inl LeftFunctionScope, s')"
    with nf have
      "GenerateUniqueSignatureForEA_loop env ea w c m ask None
         \<lparr>signature = [], sigPartLength = 0, currentAddress = ea\<rparr> s0
       = Some (Inl LeftFunctionScope, s')"
      by (auto simp: GenerateUniqueSignatureForEA_def split: if_splits)
    from loop_trace [OF this] obtain v1 s1 where
      "GenerateUniqueSignatureForEA_round env ea w c m ask None v1 s1
         = Some (Return (Inl LeftFunctionScope, s'))"
      by blast
    with round_no_function show False by blast
  qed
next
  assume a: "in_round env ea w c m ask s0 k v s \<and> \<not> user_cancelled env (polls s)
        \<and> decode_insn env (currentAddress v) = (n, insn) \<and> 0 < n
        \<and> LengthCheck env ea m ask v (poll s) = Inr (p, s1)
        \<and> occurrence_count env (AddInstruction env w insn (currentAddress v) n (signature v))
            = Some 1"
  then have u: "IsSignatureUnique env (BuildIDASignatureString
       (AddInstruction env w insn (currentAddress (v\<lparr>sigPartLength := p\<rparr>)) n
          (signature (v\<lparr>sigPartLength := p\<rparr>)))) = Some True"
    by (simp add: IsSignatureUnique_True)
  from a have "GenerateUniqueSignatureForEA_round env ea w c m ask (get_func env ea) v s =
     GrowAndTest env w c (get_func env ea) insn n (v\<lparr>sigPartLength := p\<rparr>) s1"
    by (simp add: round_decoded [of env s v n insn])
  also note GrowAndTest_unique [OF u]
  finally have r: "GenerateUniqueSignatureForEA_round env ea w c m ask (get_func env ea) v s =
     Some (Return (Inr (TrimSignature
              (AddInstruction env w insn (currentAddress v) n (signature v))), s1))"
    by simp
  from a have ir: "in_round env ea w c m ask s0 k v s" by blast
  from loop_Return [OF r]
  show "GenerateUniqueSignatureForEA env ea w c m ask s0 =
            Some (Inr (TrimSignature
              (AddInstruction env w insn (currentAddress v) n (signature v))), s1)"
    unfolding in_round_loop [OF ir] .
qed

theorem function_scope_witness:
  "get_func x86_image 11 = None \<and> get_func x86_image 16 = Some 1
   \<and> get_func x86_image 26 = Some 2
   \<and> GenerateUniqueSignatureForEA x86_image 11 True False 1000 True io0
       \<noteq> Some (Inl LeftFunctionScope, io0\<lparr>polls := 1\<rparr>)
   \<and> in_round x86_image 16 True False 1000 True io0 1
       \<lparr>signature = [\<lparr>value = 16, isWildcard = False\<rparr>, \<lparr>value = 17, isWildcard = True\<rparr>,
                     \<lparr>value = 18, isWildcard = True\<rparr>, \<lparr>value = 19, isWildcard = True\<rparr>,
                     \<lparr>value = 20, isWildcard = True\<rparr>],
        sigPartLength = 5, currentAddress = 21\<rparr> (io0\<lparr>polls := 1\<rparr>)
   \<and> decode_insn x86_image 21 = (5, x86_insn)
   \<and> GenerateUniqueSignatureForEA x86_image 16 True False 1000 True io0 =
       Some (Inr [\<lparr>value = 16, isWildcard = False\<rparr>, \<lparr>value = 17, isWildcard = True\<rparr>,
                  \<lparr>value = 18, isWildcard = True\<rparr>, \<lparr>value = 19, isWildcard = True\<rparr>,
                  \<lparr>value = 20, isWildcard = True\<rparr>, \<lparr>value = 21, isWildcard = False\<rparr>],
             io0\<lparr>polls := 2\<rparr>)
   \<and> GenerateUniqueSignatureForEA x86_image 21 True False 1000 True io0 =
       Some (Inl LeftFunctionScope, io0\<lparr>polls := 1\<rparr>)"
proof -
  let ?v = "\<lparr>signature = [\<lparr>value = 16, isWildcard = False\<rparr>, \<lparr>value = 17, isWildcard = True\<rparr>,
                     \<lparr>value = 18, isWildcard = True\<rparr>, \<lparr>value = 19, isWildcard = True\<rparr>,
                     \<lparr>value = 20, isWildcard = True\<rparr>],
        sigPartLength = 5, currentAddress = 21\<rparr>"
  let ?s = "io0\<lparr>polls := 1\<rparr>"
  have f: "get_func x86_image 11 = None" "get_func x86_image 16 = Some 1"
    "get_func x86_image 26 = Some 2"
    by (simp_all add: x86_image_def)
  have r: "in_round x86_image 16 True False 1000 True io0 1 ?v ?s"
    by code_simp
  have nc: "\<not> user_cancelled x86_image (polls ?s)"
    by (simp add: x86_image_def)
  have d: "decode_insn x86_image (currentAddress ?v) = (5, x86_insn)"
    by (simp add: x86_image_def)
  have n: "(0::int) < 5" by simp
  have l: "LengthCheck x86_image 16 1000 True ?v (poll ?s) = Inr (5, io0\<lparr>polls := 2\<rparr>)"
    by code_simp
  have u: "occurrence_count x86_image
             (AddInstruction x86_image True x86_insn (currentAddress ?v) 5 (signature ?v))
           = Some 1"
    by code_simp
  have t: "TrimSignature
             (AddInstruction x86_image True x86_insn (currentAddress ?v) 5 (signature ?v))
           = [\<lparr>value = 16, isWildcard = False\<rparr>, \<lparr>value = 17, isWildcard = True\<rparr>,
              \<lparr>value = 18, isWildcard = True\<rparr>, \<lparr>value = 19, isWildcard = True\<rparr>,
              \<lparr>value = 20, isWildcard = True\<rparr>, \<lparr>value = 21, isWildcard = False\<rparr>]"
    by code_simp
  note fs = function_scope [where env = x86_image and w = True and c = False and m = 1000
      and ask = True and ?s0.0 = io0]
  from fs [where ea = 11 and s' = "io0\<lparr>polls := 1\<rparr>"] f(1)
  have a: "GenerateUniqueSignatureForEA x86_image 11 True False 1000 True io0
       \<noteq> Some (Inl LeftFunctionScope, io0\<lparr>polls := 1\<rparr>)"
    by blast
  from fs [where ea = 16 and k = 1 and v = ?v and s = ?s and n = 5 and insn = x86_insn
      and p = 5 and ?s1.0 = "io0\<lparr>polls := 2\<rparr>"] r nc d n l u
  have b: "GenerateUniqueSignatureForEA x86_image 16 True False 1000 True io0 =
       Some (Inr (TrimSignature
         (AddInstruction x86_image True x86_insn (currentAddress ?v) 5 (signature ?v))),
         io0\<lparr>polls := 2\<rparr>)"
    by blast
  have c: "GenerateUniqueSignatureForEA x86_image 21 True False 1000 True io0 =
       Some (Inl LeftFunctionScope, io0\<lparr>polls := 1\<rparr>)"
    by code_simp
  have d': "decode_insn x86_image 21 = (5, x86_insn)"
    by (simp add: x86_image_def)
  from a b c f r d' show ?thesis unfolding t by blast
qed


section \<open>The range builder and trailing wildcards\<close>

lemma TrimSignature_no_trailing: "no_trailing_wildcard (TrimSignature sig)"
proof -
  have "case dropWhile isWildcard xs of [] \<Rightarrow> True | b # _ \<Rightarrow> \<not> isWildcard b"
    for xs :: Signature
    by (induction xs) auto
  then show ?thesis
    by (simp add: no_trailing_wildcard_def TrimSignature_def)
qed

lemma literal_no_trailing:
  "no_trailing_wildcard (AddBytesToSignature env [] a n False)"
  by (cases "rev [0..<unat n]")
     (auto simp: no_trailing_wildcard_def AddBytesToSignature_def bytes_at_def rev_map
       simp flip: rev_map)

lemma range_round_Return:
  "GenerateSignatureForEARange_round env e w v s = Return (Inr sig, s') \<Longrightarrow>
   no_trailing_wildcard sig"
  by (auto simp: GenerateSignatureForEARange_round_def Let_def TrimSignature_no_trailing
      split: if_splits prod.splits)

lemma range_loop_Return:
  assumes "GenerateSignatureForEARange_loop env e w v s = Some r"
  shows "\<exists>v1 s1. GenerateSignatureForEARange_round env e w v1 s1 = Return r"
proof (rule GenerateSignatureForEARange_loop.raw_induct
    [where P = "\<lambda>env e w v s r.
       \<exists>v1 s1. GenerateSignatureForEARange_round env e w v1 s1 = Return r",
     OF _ assms])
  fix loop :: "ida \<Rightarrow> ea_t \<Rightarrow> bool \<Rightarrow> locals \<Rightarrow> io \<Rightarrow> outcome option"
  fix env e w v s r
  assume IH: "\<And>env e w v s r. loop env e w v s = Some r \<Longrightarrow>
      \<exists>v1 s1. GenerateSignatureForEARange_round env e w v1 s1 = Return r"
  assume eq: "(case GenerateSignatureForEARange_round env e w v s of
        Return r \<Rightarrow> Some r
      | Continue v' s' \<Rightarrow> loop env e w v' s') = Some r"
  show "\<exists>v1 s1. GenerateSignatureForEARange_round env e w v1 s1 = Return r"
  proof (cases "GenerateSignatureForEARange_round env e w v s")
    case (Return r')
    with eq have "GenerateSignatureForEARange_round env e w v s = Return r" by simp
    then show ?thesis by blast
  next
    case (Continue v1 s1)
    with eq have "loop env e w v1 s1 = Some r" by simp
    from IH [OF this] show ?thesis .
  qed
qed

lemma range_loop_no_trailing:
  assumes "GenerateSignatureForEARange_loop env e w v s = Some (Inr sig, s')"
  shows "no_trailing_wildcard sig"
  using range_loop_Return [OF assms] range_round_Return by blast

text \<open>
  Claim C8. A signature that the growing builder or the range builder returns as a
  success has no trailing wildcard: it is empty or ends with a literal byte. The
  growing builder and the code path of the range builder trim before they return; the
  data path of the range builder returns literal bytes only.
\<close>

theorem no_trailing_wildcards:
  "(GenerateUniqueSignatureForEA env ea w c m ask s = Some (Inr sig, s')
      \<longrightarrow> no_trailing_wildcard sig)
   \<and> (GenerateSignatureForEARange env eaStart eaEnd w s = Some (Inr sig, s')
      \<longrightarrow> no_trailing_wildcard sig)"
proof (intro conjI impI)
  assume "GenerateUniqueSignatureForEA env ea w c m ask s = Some (Inr sig, s')"
  then have "GenerateUniqueSignatureForEA_loop env ea w c m ask (get_func env ea)
       \<lparr>signature = [], sigPartLength = 0, currentAddress = ea\<rparr> s = Some (Inr sig, s')"
    by (auto simp: GenerateUniqueSignatureForEA_def split: if_splits)
  from loop_trace [OF this] obtain v1 s1 where
    "GenerateUniqueSignatureForEA_round env ea w c m ask (get_func env ea) v1 s1
       = Some (Return (Inr sig, s'))"
    by blast
  from round_success [OF this] show "no_trailing_wildcard sig"
    by (simp add: TrimSignature_no_trailing)
next
  assume a: "GenerateSignatureForEARange env eaStart eaEnd w s = Some (Inr sig, s')"
  show "no_trailing_wildcard sig"
  proof (cases "is_code env eaStart")
    case True
    with a have "GenerateSignatureForEARange_loop env eaEnd w
             \<lparr>signature = [], sigPartLength = 0, currentAddress = eaStart\<rparr> s
           = Some (Inr sig, s')"
      by (auto simp: GenerateSignatureForEARange_def split: if_splits)
    then show ?thesis by (rule range_loop_no_trailing)
  next
    case False
    with a have "sig = AddBytesToSignature env [] eaStart (eaEnd - eaStart) False"
      by (auto simp: GenerateSignatureForEARange_def split: if_splits)
    then show ?thesis by (simp add: literal_no_trailing)
  qed
qed

theorem no_trailing_wildcards_witness:
  "GenerateUniqueSignatureForEA x86_image 16 True False 1000 True io0 =
     Some (Inr [\<lparr>value = 16, isWildcard = False\<rparr>, \<lparr>value = 17, isWildcard = True\<rparr>,
                \<lparr>value = 18, isWildcard = True\<rparr>, \<lparr>value = 19, isWildcard = True\<rparr>,
                \<lparr>value = 20, isWildcard = True\<rparr>, \<lparr>value = 21, isWildcard = False\<rparr>],
           io0\<lparr>polls := 2\<rparr>)
   \<and> no_trailing_wildcard
        [\<lparr>value = 16, isWildcard = False\<rparr>, \<lparr>value = 17, isWildcard = True\<rparr>,
         \<lparr>value = 18, isWildcard = True\<rparr>, \<lparr>value = 19, isWildcard = True\<rparr>,
         \<lparr>value = 20, isWildcard = True\<rparr>, \<lparr>value = 21, isWildcard = False\<rparr>]
   \<and> GenerateSignatureForEARange data_image 40 45 True io0 =
       Some (Inr [\<lparr>value = 40, isWildcard = False\<rparr>], io0\<lparr>polls := 1\<rparr>)
   \<and> no_trailing_wildcard [\<lparr>value = 40, isWildcard = False\<rparr>]
   \<and> GenerateSignatureForEARange data_image 16 18 True io0 =
       Some (Inr [\<lparr>value = 16, isWildcard = False\<rparr>, \<lparr>value = 17, isWildcard = False\<rparr>], io0)
   \<and> no_trailing_wildcard
        [\<lparr>value = 16, isWildcard = False\<rparr>, \<lparr>value = 17, isWildcard = False\<rparr>]"
proof -
  have g: "GenerateUniqueSignatureForEA x86_image 16 True False 1000 True io0 =
     Some (Inr [\<lparr>value = 16, isWildcard = False\<rparr>, \<lparr>value = 17, isWildcard = True\<rparr>,
                \<lparr>value = 18, isWildcard = True\<rparr>, \<lparr>value = 19, isWildcard = True\<rparr>,
                \<lparr>value = 20, isWildcard = True\<rparr>, \<lparr>value = 21, isWildcard = False\<rparr>],
           io0\<lparr>polls := 2\<rparr>)"
    by code_simp
  have r1: "GenerateSignatureForEARange data_image 40 45 True io0 =
       Some (Inr [\<lparr>value = 40, isWildcard = False\<rparr>], io0\<lparr>polls := 1\<rparr>)"
    by code_simp
  have r2: "GenerateSignatureForEARange data_image 16 18 True io0 =
       Some (Inr [\<lparr>value = 16, isWildcard = False\<rparr>, \<lparr>value = 17, isWildcard = False\<rparr>], io0)"
    by code_simp
  note t = no_trailing_wildcards [where s = io0 and w = True]
  from t [where env = x86_image and ea = 16 and c = False and m = 1000 and ask = True] g
  have "no_trailing_wildcard
        [\<lparr>value = 16, isWildcard = False\<rparr>, \<lparr>value = 17, isWildcard = True\<rparr>,
         \<lparr>value = 18, isWildcard = True\<rparr>, \<lparr>value = 19, isWildcard = True\<rparr>,
         \<lparr>value = 20, isWildcard = True\<rparr>, \<lparr>value = 21, isWildcard = False\<rparr>]"
    by blast
  moreover from t [where env = data_image and eaStart = 40 and eaEnd = 45] r1
  have "no_trailing_wildcard [\<lparr>value = 40, isWildcard = False\<rparr>]"
    by blast
  moreover from t [where env = data_image and eaStart = 16 and eaEnd = 18] r2
  have "no_trailing_wildcard
        [\<lparr>value = 16, isWildcard = False\<rparr>, \<lparr>value = 17, isWildcard = False\<rparr>]"
    by blast
  ultimately show ?thesis using g r1 r2 by blast
qed

text \<open>
  Claim C6, as the code has it. The range builder fails with \<open>InvalidAddress\<close> when
  the start or the end is \<open>BADADDR\<close>. It has no test for an empty range.
\<close>

theorem range_invalid_address:
  assumes "eaStart = BADADDR \<or> eaEnd = BADADDR"
  shows "GenerateSignatureForEARange env eaStart eaEnd w s = Some (Inl InvalidAddress, s)"
  using assms by (auto simp: GenerateSignatureForEARange_def)

theorem range_invalid_address_witness:
  "((40 :: ea_t) = BADADDR \<or> BADADDR = BADADDR)
   \<and> GenerateSignatureForEARange data_image 40 BADADDR True io0
       = Some (Inl InvalidAddress, io0)"
proof -
  have h: "(40 :: ea_t) = BADADDR \<or> BADADDR = BADADDR" by simp
  from range_invalid_address [OF h] h show ?thesis by blast
qed

text \<open>
  The claim as stated also asks for \<open>InvalidAddress\<close> when the start equals the end.
  On the data range from 16 to 16 the builder returns the empty signature, and on the
  code range from 40 to 40 the signature of the instruction at 40.
\<close>

theorem range_empty_counterexample:
  "GenerateSignatureForEARange data_image 16 16 True io0 = Some (Inr [], io0)
   \<and> GenerateSignatureForEARange data_image 16 16 True io0 \<noteq> Some (Inl InvalidAddress, io0)
   \<and> GenerateSignatureForEARange data_image 40 40 True io0
       = Some (Inr [\<lparr>value = 40, isWildcard = False\<rparr>], io0\<lparr>polls := 1\<rparr>)"
proof -
  have a: "GenerateSignatureForEARange data_image 16 16 True io0 = Some (Inr [], io0)"
    by code_simp
  have b: "GenerateSignatureForEARange data_image 40 40 True io0
       = Some (Inr [\<lparr>value = 40, isWildcard = False\<rparr>], io0\<lparr>polls := 1\<rparr>)"
    by code_simp
  from a b show ?thesis by simp
qed

section \<open>Signatures of the cross-references\<close>

subsection \<open>The progress reports of the ranker\<close>










subsection \<open>The builder and the interface\<close>




subsection \<open>The comparison of the sort\<close>







subsection \<open>The builder returns\<close>









subsection \<open>The loop over the references\<close>




subsection \<open>The primary pick\<close>





subsection \<open>The claim\<close>









section \<open>Searching for a pasted signature\<close>

text \<open>
  Claim C5 asks for a binary mask made of the digits 0 and 1 only. The class
  \<^verbatim>\<open>[0,1]\<close> of the expression at line 351 also matches a comma. On the text
  \<^verbatim>\<open>0x11, 0x22, 0b11,\<close> the detected mask is therefore \<^verbatim>\<open>?xx\<close> (three positions,
  the comma becoming a wildcard) and the two bytes are refused; without the comma
  after the binary literal the same text is accepted as \<^verbatim>\<open>11 22\<close>. On the text
  \<^verbatim>\<open>0x11, 0x22, 0x33 0b1,1\<close> the mask is \<^verbatim>\<open>x?x\<close> and three bytes are accepted,
  although the binary literal \<^verbatim>\<open>0b1\<close> has one digit.
\<close>

theorem binary_mask_comma:
  "DetectMask ''0x11, 0x22, 0b11,'' = ''?xx''
   \<and> GetRegexMatches_escaped ''0x11, 0x22, 0b11,'' = []
   \<and> GetRegexMatches_0x [] ''0x11, 0x22, 0b11,'' = [''0x11'', ''0x22'']
   \<and> SearchSignatureString env withoutMask ''0x11, 0x22, 0b11,'' io0 =
       Some (io0\<lparr>messages := [DetectedMaskNoBytes ''?xx'', UnrecognizedType]\<rparr>)
   \<and> DetectMask ''0x11, 0x22, 0b11'' = ''xx''
   \<and> ConvertWithMask ''0x11, 0x22, 0b11'' ''xx'' io0 = (''11 22'', io0)
   \<and> DetectMask ''0x11, 0x22, 0x33 0b1,1'' = ''x?x''
   \<and> ConvertWithMask ''0x11, 0x22, 0x33 0b1,1'' ''x?x'' io0 = (''11 ? 33'', io0)"
proof -
  have d1: "DetectMask ''0x11, 0x22, 0b11,'' = ''?xx''"
    by code_simp
  have e1: "GetRegexMatches_escaped ''0x11, 0x22, 0b11,'' = []"
    by code_simp
  have p1: "GetRegexMatches_0x [] ''0x11, 0x22, 0b11,'' = [''0x11'', ''0x22'']"
    by code_simp
  have c1: "ConvertWithMask ''0x11, 0x22, 0b11,'' ''?xx'' io0 =
      ([], io0\<lparr>messages := [DetectedMaskNoBytes ''?xx'']\<rparr>)"
    by code_simp
  have s1: "SearchSignatureString env withoutMask ''0x11, 0x22, 0b11,'' io0 =
       Some (io0\<lparr>messages := [DetectedMaskNoBytes ''?xx'', UnrecognizedType]\<rparr>)"
    unfolding SearchSignatureString_def d1 Let_def
    by (simp add: c1 msg_def)
  have d2: "DetectMask ''0x11, 0x22, 0b11'' = ''xx''"
    by code_simp
  have c2: "ConvertWithMask ''0x11, 0x22, 0b11'' ''xx'' io0 = (''11 22'', io0)"
    by code_simp
  have d3: "DetectMask ''0x11, 0x22, 0x33 0b1,1'' = ''x?x''"
    by code_simp
  have c3: "ConvertWithMask ''0x11, 0x22, 0x33 0b1,1'' ''x?x'' io0 = (''11 ? 33'', io0)"
    by code_simp
  from d1 e1 p1 s1 d2 c2 d3 c3 show ?thesis by blast
qed

end
